theory Spec2Isabelle
  imports Main "HOL-Library.Sublist" "HOL-Library.Word"
begin

section \<open>Strings\<close>

text \<open>
  The scripts \<^verbatim>\<open>src/api/v3/automate.js\<close> and \<^verbatim>\<open>src/ApiV2/automate.js\<close> work on
  JavaScript strings. A string is modelled as a list of characters; the only string
  operations the scripts use are \<^verbatim>\<open>startsWith\<close>, \<^verbatim>\<open>endsWith\<close>, \<^verbatim>\<open>slice\<close>,
  \<^verbatim>\<open>split\<close>, \<^verbatim>\<open>join\<close> and concatenation by template literals, always
  against ASCII patterns.
\<close>

definition startsWith :: "string \<Rightarrow> string \<Rightarrow> bool" where
  "startsWith s p = (take (length p) s = p)"

definition endsWith :: "string \<Rightarrow> string \<Rightarrow> bool" where
  "endsWith s p = (length p \<le> length s \<and> drop (length s - length p) s = p)"

text \<open>\<^verbatim>\<open>s.slice(b, e)\<close>: a negative index counts from the end, and both are clamped.\<close>

definition sliceStr :: "string \<Rightarrow> int \<Rightarrow> int \<Rightarrow> string" where
  "sliceStr s b e =
     (let n = int (length s);
          from = (if b < 0 then max (n + b) 0 else min b n);
          to = (if e < 0 then max (n + e) 0 else min e n)
      in take (nat (to - from)) (drop (nat from) s))"

section \<open>Endpoint parsing\<close>

text \<open>
  \<^verbatim>\<open>getEndpoint\<close> is the same function in both scripts (v3 lines 50-62, v2 lines 49-61):
  \<^verbatim>\<open>
  function getEndpoint(rawEndpoint) {
      if (rawEndpoint.endsWith('/')) { rawEndpoint = rawEndpoint.slice(0, -1); }
      if (!rawEndpoint.startsWith("http")) { rawEndpoint = `https://${rawEndpoint}`; }
      return rawEndpoint;
  }
  \<close>
\<close>

definition getEndpoint :: "string \<Rightarrow> string" where
  "getEndpoint rawEndpoint =
     (let rawEndpoint1 =
            (if endsWith rawEndpoint ''/'' then sliceStr rawEndpoint 0 (- 1) else rawEndpoint);
          rawEndpoint2 =
            (if \<not> startsWith rawEndpoint1 ''http'' then ''https://'' @ rawEndpoint1
             else rawEndpoint1)
      in rawEndpoint2)"

section \<open>The outside world\<close>

text \<open>
  Both scripts are sequential orchestration of a remote HTTP API, the local file system,
  the JSZip library, a timer and the console. These collaborators are not part of the
  repository; they are gathered in one record. The immutable part (how the server
  answers, which paths can be written, what JSZip generates for an archive, the
  multipart boundary) is a parameter of every theorem; the mutable part (the log of
  requests, the files, the sleeps, the console lines, and the trace that keeps requests
  and sleeps in the order in which they happen) is threaded through the code
  by explicit state passing.
\<close>

type_synonym bytes = "8 word list"

type_synonym header = "string \<times> string"

text \<open>A JSZip object: one entry per name, in insertion order.\<close>

type_synonym archive = "(string \<times> bytes) list"

text \<open>
  What an \<^verbatim>\<open>await\<close> can throw: \<^verbatim>\<open>Error\<close> objects made by the scripts themselves,
  the runtime's \<^verbatim>\<open>TypeError\<close> and \<^verbatim>\<open>ReferenceError\<close>, rejections of node-fetch
  (network failure, body that is not JSON) and of the \<^verbatim>\<open>fs\<close> module.
\<close>

datatype error =
    Error string
  | TypeError string
  | ReferenceError string
  | FetchError string
  | SystemError string

datatype httpMethod = GET | POST

record formData =
  boundary :: string
  filename :: string
  contentType :: string
  fileData :: bytes

text \<open>
  Request bodies are kept structured (the argument of \<^verbatim>\<open>JSON.stringify\<close>, or the form
  data) instead of serialised. The order descriptor carries the tooth numbers and the
  two scan names; its other fields are constants of the scripts.
\<close>

datatype body =
    NoBody
  | LoginBody string string
  | OrderInfoBody "int list" string string
  | ReviewBody string
  | AcceptBody string
  | FormBody formData

record request =
  url :: string
  verb :: httpMethod
  reqHeaders :: "header list"
  body :: body

text \<open>
  What a run does to the outside, in the order in which it does it: a request sent,
  or a pause of so many milliseconds.
\<close>

datatype event = Fetched request | Slept nat

text \<open>
  The flags of an order status are read by the scripts for their truthiness only, so
  they are booleans here.
\<close>

record orderStatus =
  processing :: bool
  failed :: bool
  reviewable :: bool
  accepted :: bool
  message :: string

text \<open>The v2 qualification answer; the order file is a name and a content.\<close>

record qualificationMessage =
  errorMessage :: string
  qOrderId :: string
  qOrderFile :: "string \<times> bytes"

text \<open>
  The JSON bodies the API sends: the token pair of the xsrf endpoint (fields
  \<^verbatim>\<open>headerName\<close>, \<^verbatim>\<open>requestToken\<close> in v3 and \<^verbatim>\<open>tokenName\<close>, \<^verbatim>\<open>token\<close> in v2), an
  object with a \<^verbatim>\<open>status\<close> field, the qualification message, and the created order
  with its \<^verbatim>\<open>id\<close>. A body of another shape than the one a function reads has none of
  the fields that function looks up, so they are \<^verbatim>\<open>undefined\<close> there.
\<close>

datatype payload =
    Tokens string string
  | StatusOf orderStatus
  | Qualification qualificationMessage
  | Order string

text \<open>
  A node-fetch response: \<open>setCookie\<close> is \<^verbatim>\<open>headers.get('set-cookie')\<close> (\<open>None\<close> for
  \<^verbatim>\<open>null\<close>), \<open>json\<close> is what \<^verbatim>\<open>response.json()\<close> resolves to (\<open>None\<close> when the body
  is not JSON and the promise rejects), \<open>bodyText\<close> and \<open>bodyBuffer\<close> are
  \<^verbatim>\<open>response.text()\<close> and \<^verbatim>\<open>response.buffer()\<close>.
\<close>

record response =
  ok :: bool
  statusCode :: nat
  setCookie :: "string option"
  json :: "payload option"
  bodyText :: string
  bodyBuffer :: bytes

text \<open>
  The server answers the \<open>n\<close>-th request of the run (\<open>None\<close>: the request fails on
  the network and \<^verbatim>\<open>fetch\<close> rejects).
\<close>

record world =
  server :: "nat \<Rightarrow> request \<Rightarrow> response option"
  calls :: "request list"
  files :: "string \<Rightarrow> bytes option"
  writable :: "string \<Rightarrow> bool"
  written :: "(string \<times> bytes) list"
  sleeps :: "nat list"
  trace :: "event list"
  console :: "string list"
  generateAsync :: "archive \<Rightarrow> bytes"
  formBoundary :: string

text \<open>An asynchronous function either throws or returns, and changes the world.\<close>

type_synonym 'a io = "world \<Rightarrow> (error + 'a) \<times> world"

definition ret :: "'a \<Rightarrow> 'a io" where
  "ret x = (\<lambda>w. (Inr x, w))"

definition throw :: "error \<Rightarrow> 'a io" where
  "throw e = (\<lambda>w. (Inl e, w))"

definition liftE :: "error + 'a \<Rightarrow> 'a io" where
  "liftE r = (\<lambda>w. (r, w))"

definition bind :: "'a io \<Rightarrow> ('a \<Rightarrow> 'b io) \<Rightarrow> 'b io" where
  "bind m f = (\<lambda>w. case m w of (Inl e, w') \<Rightarrow> (Inl e, w') | (Inr x, w') \<Rightarrow> f x w')"

definition fetch :: "request \<Rightarrow> response io" where
  "fetch req = (\<lambda>w.
     let w' = w\<lparr>calls := calls w @ [req], trace := trace w @ [Fetched req]\<rparr>
     in case server w (length (calls w)) req of
          None \<Rightarrow> (Inl (FetchError ''request failed''), w')
        | Some r \<Rightarrow> (Inr r, w'))"

definition responseJson :: "response \<Rightarrow> payload io" where
  "responseJson r =
     (case json r of
        None \<Rightarrow> throw (FetchError ''invalid json response body'')
      | Some p \<Rightarrow> ret p)"

definition consoleLog :: "string \<Rightarrow> unit io" where
  "consoleLog s = (\<lambda>w. (Inr (), w\<lparr>console := console w @ [s]\<rparr>))"

definition sleep :: "nat \<Rightarrow> unit io" where
  "sleep ms =
     (\<lambda>w. (Inr (), w\<lparr>sleeps := sleeps w @ [ms], trace := trace w @ [Slept ms]\<rparr>))"

definition readFile :: "string \<Rightarrow> bytes io" where
  "readFile path = (\<lambda>w.
     case files w path of
       None \<Rightarrow> (Inl (SystemError (''ENOENT: no such file or directory, open '' @ path)), w)
     | Some content \<Rightarrow> (Inr content, w))"

definition writeFile :: "string \<Rightarrow> bytes \<Rightarrow> unit io" where
  "writeFile path content = (\<lambda>w.
     if writable w path
     then (Inr (), w\<lparr>files := (files w)(path \<mapsto> content),
                      written := written w @ [(path, content)]\<rparr>)
     else (Inl (SystemError (''cannot open '' @ path)), w))"

text \<open>
  \<^verbatim>\<open>zip.file(name, data)\<close> of JSZip adds the entry, or replaces the data of the entry
  that has this name already. (For a name with a folder part JSZip also adds the
  folders. The scan names are file names without a separator, see \<open>scanName\<close>
  below; for the order file of v2 the theorems ask for a name without a slash.)
\<close>

fun zipFile :: "string \<Rightarrow> bytes \<Rightarrow> archive \<Rightarrow> archive" where
  "zipFile name content [] = [(name, content)]"
| "zipFile name content ((n, c) # z) =
     (if n = name then (name, content) # z else (n, c) # zipFile name content z)"

section \<open>Helpers of the JavaScript runtime\<close>

text \<open>A number in a template literal: its decimal digits.\<close>

definition digitChar :: "nat \<Rightarrow> char" where
  "digitChar d = ''0123456789'' ! d"

fun showNat :: "nat \<Rightarrow> string" where
  "showNat n = (if n < 10 then [digitChar n] else showNat (n div 10) @ [digitChar (n mod 10)])"

declare showNat.simps [simp del]

text \<open>\<^verbatim>\<open>s.split(sep)\<close> for a separator of one character or a character class.\<close>

fun splitAcc :: "(char \<Rightarrow> bool) \<Rightarrow> string \<Rightarrow> string \<Rightarrow> string list" where
  "splitAcc isSep acc [] = [rev acc]"
| "splitAcc isSep acc (c # s) =
     (if isSep c then rev acc # splitAcc isSep [] s else splitAcc isSep (c # acc) s)"

definition split :: "(char \<Rightarrow> bool) \<Rightarrow> string \<Rightarrow> string list" where
  "split isSep s = splitAcc isSep [] s"

text \<open>\<^verbatim>\<open>parts.join(sep)\<close>.\<close>

fun join :: "string \<Rightarrow> string list \<Rightarrow> string" where
  "join sep [] = []"
| "join sep [p] = p"
| "join sep (p # q # ps) = p @ sep @ join sep (q # ps)"

text \<open>\<^verbatim>\<open>cookies[0]\<close>, as it reads when it is made part of a header.\<close>

definition first :: "string list \<Rightarrow> string" where
  "first xs = (case xs of [] \<Rightarrow> ''undefined'' | x # _ \<Rightarrow> x)"

section \<open>Configuration\<close>

text \<open>
  The module-level constants of a script, read from the command line. The functions
  below run after the start-up checks, so the e-mail, the password and the output
  directory are present, and so are the scan paths whenever an order is sent.
\<close>

record config =
  email :: string
  password :: string
  upperJawPath :: string
  lowerJawPath :: string
  outputDirectory :: string
  unns :: "int list"
  rawEndpoint :: string

definition endpoint :: "config \<Rightarrow> string" where
  "endpoint cfg = getEndpoint (rawEndpoint cfg)"

definition apiEndpoint_v3 :: "config \<Rightarrow> string" where
  "apiEndpoint_v3 cfg = endpoint cfg @ ''/api/v3''"

definition apiEndpoint_v2 :: "config \<Rightarrow> string" where
  "apiEndpoint_v2 cfg = endpoint cfg @ ''/api/v2''"

definition backslash :: char where
  "backslash = CHR 0x5C"

text \<open>The class \<^verbatim>\<open>/[\\|\/]/\<close>: a backslash, a vertical bar or a slash.\<close>

definition regexp :: "char \<Rightarrow> bool" where
  "regexp c = (c = backslash \<or> c = CHR ''|'' \<or> c = CHR ''/'')"

text \<open>
  \<^verbatim>\<open>path.split(regexp).pop()\<close>: the part after the last separator. (\<open>split\<close>
  returns at least one part, so there is a last one.)
\<close>

definition scanName :: "string \<Rightarrow> string" where
  "scanName path = last (split regexp path)"

definition upperJawScanName :: "config \<Rightarrow> string" where
  "upperJawScanName cfg = scanName (upperJawPath cfg)"

definition lowerJawScanName :: "config \<Rightarrow> string" where
  "lowerJawScanName cfg = scanName (lowerJawPath cfg)"

definition jsonHeader :: header where
  "jsonHeader = (''Content-Type'', ''application/json'')"

section \<open>Functions shared by both scripts\<close>

text \<open>
  \<^verbatim>\<open>
  function getCookies(response) {
      const headers = response.headers;
      const cookie = headers.get('set-cookie');
      return cookie.split(';');
  }
  \<close>
  Without a \<^verbatim>\<open>set-cookie\<close> header \<^verbatim>\<open>cookie\<close> is \<^verbatim>\<open>null\<close> and the call of
  \<^verbatim>\<open>split\<close> throws a \<^verbatim>\<open>TypeError\<close>.
\<close>

definition getCookies :: "response \<Rightarrow> error + string list" where
  "getCookies response =
     (case setCookie response of
        None \<Rightarrow> Inl (TypeError ''Cannot read properties of null (reading split)'')
      | Some cookie \<Rightarrow> Inr (split (\<lambda>c. c = CHR '';'') cookie))"

definition getUploadContentTypeHeader :: "formData \<Rightarrow> header" where
  "getUploadContentTypeHeader formData =
     (''Content-Type'', ''multipart/form-data; boundary='' @ boundary formData)"

text \<open>
  \<^verbatim>\<open>waitForReady\<close> has the same text in both scripts (v3 lines 335-354, v2 lines
  173-192) and calls the script's own \<^verbatim>\<open>getStatus\<close>, a parameter here:
  \<^verbatim>\<open>
  let status = await getStatus(orderId, headers);
  console.log(`Order ${orderId} is ${status.message}.`);
  while (status.processing) {
      await sleep(30000); // 30 second sleep
      status = await getStatus(orderId, headers);
      console.log(`Order ${orderId} is ${status.message}.`);
  }
  if (status.failed) { throw Error(`Processing failed for order ${orderId}!`); }
  console.log(`Order ${orderId} finished processing.`);
  return status;
  \<close>
  \<^verbatim>\<open>getStatus\<close> returns \<^verbatim>\<open>undefined\<close> (\<open>None\<close>) when the body has no \<^verbatim>\<open>status\<close>
  field; reading \<^verbatim>\<open>status.message\<close> then throws. The loop has no bound, so it is a
  partial function: \<open>None\<close> is a run that polls forever.
\<close>

definition logStatus :: "string \<Rightarrow> orderStatus option \<Rightarrow> orderStatus io" where
  "logStatus orderId status =
     (case status of
        None \<Rightarrow> throw (TypeError ''Cannot read properties of undefined (reading message)'')
      | Some st \<Rightarrow>
          bind (consoleLog (''Order '' @ orderId @ '' is '' @ message st @ ''.''))
            (\<lambda>_. ret st))"

partial_function (option) waitForReady_loop ::
  "(string \<Rightarrow> header list \<Rightarrow> orderStatus option io) \<Rightarrow> string \<Rightarrow> header list \<Rightarrow>
     orderStatus \<Rightarrow> world \<Rightarrow> ((error + orderStatus) \<times> world) option" where
  "waitForReady_loop getStatus orderId headers status w =
     (if processing status then
        (case bind (sleep 30000)
                (\<lambda>_. bind (getStatus orderId headers) (logStatus orderId)) w of
           (Inl e, w') \<Rightarrow> Some (Inl e, w')
         | (Inr status', w') \<Rightarrow> waitForReady_loop getStatus orderId headers status' w')
      else Some (Inr status, w))"

declare waitForReady_loop.simps [code]

definition waitForReady ::
  "(string \<Rightarrow> header list \<Rightarrow> orderStatus option io) \<Rightarrow> string \<Rightarrow> header list \<Rightarrow>
     world \<Rightarrow> ((error + orderStatus) \<times> world) option" where
  "waitForReady getStatus orderId headers w =
     (case bind (getStatus orderId headers) (logStatus orderId) w of
        (Inl e, w1) \<Rightarrow> Some (Inl e, w1)
      | (Inr status, w1) \<Rightarrow>
          (case waitForReady_loop getStatus orderId headers status w1 of
             None \<Rightarrow> None
           | Some (Inl e, w2) \<Rightarrow> Some (Inl e, w2)
           | Some (Inr status', w2) \<Rightarrow>
               if failed status'
               then Some (Inl (Error (''Processing failed for order '' @ orderId @ ''!'')), w2)
               else Some (bind (consoleLog (''Order '' @ orderId @ '' finished processing.''))
                            (\<lambda>_. ret status') w2)))"

section \<open>The v3 script\<close>

definition makeCookieHeader_v3 :: "string \<Rightarrow> header" where
  "makeCookieHeader_v3 token = (''cookie'', token)"

definition xsrfRequest_v3 :: "config \<Rightarrow> header list \<Rightarrow> request" where
  "xsrfRequest_v3 cfg headers =
     \<lparr>url = apiEndpoint_v3 cfg @ ''/xsrf/'', verb = GET, reqHeaders = headers,
      body = NoBody\<rparr>"

definition getAntiforgeryHeaders :: "config \<Rightarrow> header list \<Rightarrow> header list io" where
  "getAntiforgeryHeaders cfg headers =
     bind (fetch (xsrfRequest_v3 cfg headers))
       (\<lambda>response.
          if \<not> ok response
          then throw (Error (''Unable to get antiforgery token! ['' @
                             showNat (statusCode response) @ '']''))
          else bind (liftE (getCookies response))
            (\<lambda>cookies. bind (responseJson response)
              (\<lambda>content.
                 let verificationTokenHeader =
                       (case content of
                          Tokens headerName requestToken \<Rightarrow> (headerName, requestToken)
                        | _ \<Rightarrow> (''undefined'', ''undefined''));
                     antiforgeryToken = first cookies;
                     antiforgeryCookie = makeCookieHeader_v3 antiforgeryToken
                 in ret [antiforgeryCookie, verificationTokenHeader])))"

text \<open>
  \<^verbatim>\<open>getAuthHeader\<close> passes the one-element array \<^verbatim>\<open>[authToken]\<close> as the header value;
  as a header value it reads as the token itself.
\<close>

definition getAuthHeader :: "response \<Rightarrow> header io" where
  "getAuthHeader loginResponse =
     bind (liftE (getCookies loginResponse))
       (\<lambda>cookies. ret (makeCookieHeader_v3 (first cookies)))"

text \<open>
  v3 lines 142-144 build the message of a rejected login from \<^verbatim>\<open>response.status\<close>:
  \<^verbatim>\<open>
  if (!loginResponse.ok) {
      throw Error(`Unable to log in! [${response.status}]`);
  }
  \<close>
  No variable \<^verbatim>\<open>response\<close> is in scope in \<^verbatim>\<open>login\<close> (the response is
  \<^verbatim>\<open>loginResponse\<close>), so evaluating the template literal throws a
  \<^verbatim>\<open>ReferenceError\<close> before the \<^verbatim>\<open>Error\<close> is made.
\<close>

definition loginRequest_v3 :: "config \<Rightarrow> header list \<Rightarrow> request" where
  "loginRequest_v3 cfg loginHeaders =
     \<lparr>url = apiEndpoint_v3 cfg @ ''/Login'', verb = POST, reqHeaders = loginHeaders,
      body = LoginBody (email cfg) (password cfg)\<rparr>"

definition login_v3 :: "config \<Rightarrow> header list io" where
  "login_v3 cfg =
     bind (getAntiforgeryHeaders cfg [])
       (\<lambda>initialAntiforgeryHeaders.
          let loginHeaders = initialAntiforgeryHeaders @ [jsonHeader] in
          bind (fetch (loginRequest_v3 cfg loginHeaders))
            (\<lambda>loginResponse.
               if \<not> ok loginResponse
               then throw (ReferenceError ''response is not defined'')
               else bind (getAuthHeader loginResponse)
                 (\<lambda>authHeader. bind (getAntiforgeryHeaders cfg [authHeader])
                   (\<lambda>antiforgeryHeaders.
                      let headers = antiforgeryHeaders @ [authHeader] in
                      bind (consoleLog (''Successfully logged in as '' @ email cfg @ ''.''))
                        (\<lambda>_. ret headers)))))"

definition getScanZipAsBuffer :: "config \<Rightarrow> bytes io" where
  "getScanZipAsBuffer cfg =
     bind (readFile (upperJawPath cfg))
       (\<lambda>upperContent. bind (readFile (lowerJawPath cfg))
         (\<lambda>lowerContent.
            let zip = zipFile (lowerJawScanName cfg) lowerContent
                        (zipFile (upperJawScanName cfg) upperContent [])
            in (\<lambda>w. (Inr (generateAsync w zip), w))))"

definition getUploadContent_v3 :: "config \<Rightarrow> string \<Rightarrow> formData io" where
  "getUploadContent_v3 cfg orderId =
     bind (getScanZipAsBuffer cfg)
       (\<lambda>buffer w.
          (Inr \<lparr>boundary = formBoundary w, filename = orderId @ ''.zip'',
                contentType = ''application/zip'', fileData = buffer\<rparr>, w))"

definition createOrder :: "config \<Rightarrow> header list \<Rightarrow> string io" where
  "createOrder cfg headers =
     bind (fetch \<lparr>url = apiEndpoint_v3 cfg @ ''/Orders/Crown'', verb = POST,
                  reqHeaders = headers @ [jsonHeader],
                  body = OrderInfoBody (unns cfg) (upperJawScanName cfg)
                           (lowerJawScanName cfg)\<rparr>)
       (\<lambda>response.
          if \<not> ok response then throw (Error (bodyText response))
          else bind (responseJson response)
            (\<lambda>order.
               let id = (case order of Order i \<Rightarrow> i | _ \<Rightarrow> ''undefined'') in
               bind (consoleLog (''New order created with order ID '' @ id @ ''.''))
                 (\<lambda>_. ret id)))"

definition submitOrder :: "config \<Rightarrow> header list \<Rightarrow> string \<Rightarrow> unit io" where
  "submitOrder cfg headers orderId =
     bind (getUploadContent_v3 cfg orderId)
       (\<lambda>formData.
          let contentTypeHeader = getUploadContentTypeHeader formData in
          bind (fetch \<lparr>url = apiEndpoint_v3 cfg @ ''/Orders/'' @ orderId @ ''/Submit'',
                       verb = POST, reqHeaders = headers @ [contentTypeHeader],
                       body = FormBody formData\<rparr>)
            (\<lambda>response.
               if \<not> ok response
               then throw (Error (''Upload failed for order '' @ orderId @ ''! ['' @
                                  showNat (statusCode response) @ '']''))
               else consoleLog (''Successfully submitted order '' @ orderId @
                                '' for design.'')))"

definition send :: "config \<Rightarrow> header list \<Rightarrow> string io" where
  "send cfg headers =
     bind (createOrder cfg headers)
       (\<lambda>orderId. bind (submitOrder cfg headers orderId) (\<lambda>_. ret orderId))"

definition statusRequest_v3 :: "config \<Rightarrow> string \<Rightarrow> header list \<Rightarrow> request" where
  "statusRequest_v3 cfg orderId headers =
     \<lparr>url = apiEndpoint_v3 cfg @ ''/Orders/'' @ orderId @ ''/Status'', verb = GET,
      reqHeaders = headers @ [jsonHeader], body = NoBody\<rparr>"

definition getStatus_v3 :: "config \<Rightarrow> string \<Rightarrow> header list \<Rightarrow> orderStatus option io" where
  "getStatus_v3 cfg orderId headers =
     bind (fetch (statusRequest_v3 cfg orderId headers))
       (\<lambda>response.
          if \<not> ok response
          then throw (Error (''Unable to get status for order '' @ orderId @ ''! ['' @
                             showNat (statusCode response) @ '']''))
          else bind (responseJson response)
            (\<lambda>status. ret (case status of StatusOf st \<Rightarrow> Some st | _ \<Rightarrow> None)))"

definition waitForReady_v3 ::
  "config \<Rightarrow> string \<Rightarrow> header list \<Rightarrow> world \<Rightarrow> ((error + orderStatus) \<times> world) option" where
  "waitForReady_v3 cfg = waitForReady (getStatus_v3 cfg)"

definition reviewRequest :: "config \<Rightarrow> header list \<Rightarrow> string \<Rightarrow> string \<Rightarrow> request" where
  "reviewRequest cfg headers orderId action =
     \<lparr>url = apiEndpoint_v3 cfg @ ''/Orders/'' @ orderId @ ''/Review'', verb = POST,
      reqHeaders = headers @ [jsonHeader], body = ReviewBody action\<rparr>"

definition review :: "config \<Rightarrow> header list \<Rightarrow> string \<Rightarrow> string \<Rightarrow> unit io" where
  "review cfg headers orderId action =
     bind (fetch (reviewRequest cfg headers orderId action))
       (\<lambda>response.
          if \<not> ok response
          then throw (Error (''Unable to '' @ action @ '' order '' @ orderId @ ''! ['' @
                             showNat (statusCode response) @ '']''))
          else consoleLog (''Successfully '' @ action @ ''ed order '' @ orderId @ ''.''))"

definition downloadRequest_v3 :: "config \<Rightarrow> header list \<Rightarrow> string \<Rightarrow> request" where
  "downloadRequest_v3 cfg headers orderId =
     \<lparr>url = apiEndpoint_v3 cfg @ ''/Orders/'' @ orderId @ ''/Download'', verb = GET,
      reqHeaders = headers @ [jsonHeader], body = NoBody\<rparr>"

text \<open>
  The output path is \<^verbatim>\<open>`${outputDirectory}\\${orderId}.zip`\<close>: the separator written
  by the script is a backslash.
\<close>

definition outputPath :: "config \<Rightarrow> string \<Rightarrow> string" where
  "outputPath cfg orderId = outputDirectory cfg @ [backslash] @ orderId @ ''.zip''"

definition download_v3 :: "config \<Rightarrow> header list \<Rightarrow> string \<Rightarrow> unit io" where
  "download_v3 cfg headers orderId =
     bind (fetch (downloadRequest_v3 cfg headers orderId))
       (\<lambda>response.
          if \<not> ok response
          then throw (Error (''Unable to download order '' @ orderId @ ''! ['' @
                             showNat (statusCode response) @ '']''))
          else bind (writeFile (outputPath cfg orderId) (bodyBuffer response))
            (\<lambda>_. consoleLog (''Order '' @ orderId @ '' successfully downloaded to '' @
                              outputDirectory cfg @ ''.'')))"

definition acceptAndDownload ::
  "config \<Rightarrow> header list \<Rightarrow> string \<Rightarrow> orderStatus \<Rightarrow> unit io" where
  "acceptAndDownload cfg headers orderId status =
     bind (if reviewable status then review cfg headers orderId ''accept'' else ret ())
       (\<lambda>_. download_v3 cfg headers orderId)"

section \<open>The v2 script\<close>

definition makeCookieHeader_v2 :: "string list \<Rightarrow> header" where
  "makeCookieHeader_v2 parts = (let all = join '';'' parts in (''cookie'', all))"

definition xsrfRequest_v2 :: "config \<Rightarrow> header list \<Rightarrow> request" where
  "xsrfRequest_v2 cfg headers =
     \<lparr>url = apiEndpoint_v2 cfg @ ''/xsrf/get/'', verb = GET, reqHeaders = headers,
      body = NoBody\<rparr>"

definition getTokens :: "config \<Rightarrow> header list \<Rightarrow> (string \<times> header) io" where
  "getTokens cfg headers =
     bind (fetch (xsrfRequest_v2 cfg headers))
       (\<lambda>response.
          if \<not> ok response then throw (Error ''Unable to get antiforgery token!'')
          else bind (liftE (getCookies response))
            (\<lambda>cookies. bind (responseJson response)
              (\<lambda>content.
                 let verificationTokenHeader =
                       (case content of
                          Tokens tokenName token \<Rightarrow> (tokenName, token)
                        | _ \<Rightarrow> (''undefined'', ''undefined''));
                     antiforgeryToken = first cookies
                 in ret (antiforgeryToken, verificationTokenHeader))))"

definition getFinalHeaders :: "config \<Rightarrow> response \<Rightarrow> header list io" where
  "getFinalHeaders cfg loginResponse =
     bind (liftE (getCookies loginResponse))
       (\<lambda>cookies.
          let loginToken = first cookies;
              tempCookie = makeCookieHeader_v2 [loginToken] in
          bind (getTokens cfg [tempCookie])
            (\<lambda>(antiforgeryToken, verificationTokenHeader).
               let cookieHeader = makeCookieHeader_v2 [antiforgeryToken, loginToken]
               in ret [cookieHeader, verificationTokenHeader]))"

definition getUploadContent_v2 :: "config \<Rightarrow> string \<Rightarrow> string \<times> bytes \<Rightarrow> formData io" where
  "getUploadContent_v2 cfg orderId orderFile =
     bind (readFile (upperJawPath cfg))
       (\<lambda>upperContent. bind (readFile (lowerJawPath cfg))
         (\<lambda>lowerContent.
            let zip = zipFile (fst orderFile) (snd orderFile)
                        (zipFile (lowerJawScanName cfg) lowerContent
                          (zipFile (upperJawScanName cfg) upperContent []))
            in (\<lambda>w.
                 let arrayBuffer = generateAsync w zip;
                     fileName = orderId @ ''.zip'';
                     fileType = ''application/zip''
                 in (Inr \<lparr>boundary = formBoundary w, filename = fileName,
                           contentType = fileType, fileData = arrayBuffer\<rparr>, w))))"

definition statusRequest_v2 :: "config \<Rightarrow> string \<Rightarrow> header list \<Rightarrow> request" where
  "statusRequest_v2 cfg orderId headers =
     \<lparr>url = apiEndpoint_v2 cfg @ ''/Orders/Status/'' @ orderId, verb = GET,
      reqHeaders = headers @ [jsonHeader], body = NoBody\<rparr>"

definition getStatus_v2 :: "config \<Rightarrow> string \<Rightarrow> header list \<Rightarrow> orderStatus option io" where
  "getStatus_v2 cfg orderId headers =
     bind (fetch (statusRequest_v2 cfg orderId headers))
       (\<lambda>response.
          if \<not> ok response
          then throw (Error (''Unable to get status for order '' @ orderId @ ''!''))
          else bind (responseJson response)
            (\<lambda>status. ret (case status of StatusOf st \<Rightarrow> Some st | _ \<Rightarrow> None)))"

definition waitForReady_v2 ::
  "config \<Rightarrow> string \<Rightarrow> header list \<Rightarrow> world \<Rightarrow> ((error + orderStatus) \<times> world) option" where
  "waitForReady_v2 cfg = waitForReady (getStatus_v2 cfg)"

definition loginRequest_v2 :: "config \<Rightarrow> header list \<Rightarrow> request" where
  "loginRequest_v2 cfg loginHeaders =
     \<lparr>url = apiEndpoint_v2 cfg @ ''/Authentication/Login'', verb = POST,
      reqHeaders = loginHeaders, body = LoginBody (email cfg) (password cfg)\<rparr>"

definition login_v2 :: "config \<Rightarrow> header list io" where
  "login_v2 cfg =
     bind (getTokens cfg [])
       (\<lambda>(tempAntiforgeryToken, tempVerificationTokenHeader).
          let loginHeaders =
                [(''cookie'', tempAntiforgeryToken), tempVerificationTokenHeader, jsonHeader]
          in
          bind (fetch (loginRequest_v2 cfg loginHeaders))
            (\<lambda>loginResponse.
               if \<not> ok loginResponse then throw (Error ''Unable to log in!'')
               else bind (getFinalHeaders cfg loginResponse)
                 (\<lambda>headers.
                    bind (consoleLog (''Successfully logged in as '' @ email cfg @ ''.''))
                      (\<lambda>_. ret headers))))"

definition qualificationRequest :: "config \<Rightarrow> header list \<Rightarrow> request" where
  "qualificationRequest cfg headers =
     \<lparr>url = apiEndpoint_v2 cfg @ ''/Qualification/QualifyOrderInfo'', verb = POST,
      reqHeaders = headers @ [jsonHeader],
      body = OrderInfoBody (unns cfg) (upperJawScanName cfg) (lowerJawScanName cfg)\<rparr>"

definition uploadRequest :: "config \<Rightarrow> header list \<Rightarrow> string \<Rightarrow> formData \<Rightarrow> request" where
  "uploadRequest cfg headers orderId formData =
     \<lparr>url = apiEndpoint_v2 cfg @ ''/Streaming/Upload/'' @ orderId, verb = POST,
      reqHeaders = headers @ [getUploadContentTypeHeader formData],
      body = FormBody formData\<rparr>"

text \<open>
  v2 lines 270-305. The qualification response is read without a look at its
  \<^verbatim>\<open>ok\<close> flag; the comment of the script gives the reason:
  \<^verbatim>\<open>
  // the error message shows any issues, if that is empty we are clear to continue
  const qualificationMessage = await qualificationResponse.json();
  if (qualificationMessage.errorMessage != "") {
      throw Error(qualificationMessage.errorMessage);
  }
  \<close>
  For a body without the field, \<^verbatim>\<open>errorMessage\<close> is \<^verbatim>\<open>undefined\<close>, which differs from
  the empty string, and \<^verbatim>\<open>Error(undefined)\<close> has the empty message.
\<close>

definition upload :: "config \<Rightarrow> header list \<Rightarrow> string io" where
  "upload cfg headers =
     bind (fetch (qualificationRequest cfg headers))
       (\<lambda>qualificationResponse. bind (responseJson qualificationResponse)
         (\<lambda>qualificationMessage.
            case qualificationMessage of
              Qualification q \<Rightarrow>
                if errorMessage q \<noteq> '''' then throw (Error (errorMessage q))
                else
                  let orderId = qOrderId q;
                      orderFile = qOrderFile q in
                  bind (consoleLog (''New order created with order ID '' @ orderId @ ''.''))
                    (\<lambda>_. bind (getUploadContent_v2 cfg orderId orderFile)
                      (\<lambda>formData.
                         bind (fetch (uploadRequest cfg headers orderId formData))
                           (\<lambda>uploadResponse.
                              if \<not> ok uploadResponse
                              then throw (Error (''Upload failed for order '' @ orderId @
                                                 ''!''))
                              else ret orderId)))
            | _ \<Rightarrow> throw (Error '''')))"

definition acceptRequest :: "config \<Rightarrow> header list \<Rightarrow> string \<Rightarrow> request" where
  "acceptRequest cfg headers orderId =
     \<lparr>url = apiEndpoint_v2 cfg @ ''/Results/Accept'', verb = POST,
      reqHeaders = headers @ [jsonHeader], body = AcceptBody orderId\<rparr>"

definition downloadRequest_v2 :: "config \<Rightarrow> header list \<Rightarrow> string \<Rightarrow> request" where
  "downloadRequest_v2 cfg headers orderId =
     \<lparr>url = apiEndpoint_v2 cfg @ ''/Results/Download/'' @ orderId, verb = GET,
      reqHeaders = headers @ [jsonHeader], body = NoBody\<rparr>"

definition download_v2 :: "config \<Rightarrow> string \<Rightarrow> orderStatus \<Rightarrow> header list \<Rightarrow> unit io" where
  "download_v2 cfg orderId status headers =
     bind (if \<not> accepted status
           then bind (fetch (acceptRequest cfg headers orderId))
                  (\<lambda>acceptResponse.
                     if \<not> ok acceptResponse
                     then throw (Error (''Unable to accept order '' @ orderId @ ''!''))
                     else ret ())
           else ret ())
       (\<lambda>_. bind (fetch (downloadRequest_v2 cfg headers orderId))
         (\<lambda>downloadResponse.
            if \<not> ok downloadResponse
            then throw (Error (''Unable to download order '' @ orderId @ ''!''))
            else bind (writeFile (outputPath cfg orderId) (bodyBuffer downloadResponse))
              (\<lambda>_. consoleLog (''Order '' @ orderId @ '' successfully downloaded to '' @
                                outputDirectory cfg @ ''.''))))"

section \<open>Notions of the specification\<close>

text \<open>
  The specification speaks of an input that "has no scheme". Following the
  specification's words, a scheme is present when the string contains the separator
  \<^verbatim>\<open>://\<close> after a non-empty scheme name.
\<close>

definition spec_hasScheme :: "string \<Rightarrow> bool" where
  "spec_hasScheme s = list_ex (\<lambda>i. startsWith (drop i s) ''://'') [1..<length s]"

text \<open>Dropping one trailing slash, written with \<^const>\<open>last\<close> and \<^const>\<open>butlast\<close>.\<close>

definition dropSlash :: "string \<Rightarrow> string" where
  "dropSlash s = (if s \<noteq> [] \<and> last s = CHR ''/'' then butlast s else s)"

section \<open>Paths on a POSIX system\<close>

text \<open>
  On Linux and macOS the slash alone separates the directories of a path, and a
  backslash is a character of a file name like any other: the directory a file lies in
  is what precedes the last slash of its path.
\<close>

definition posixDirname :: "string \<Rightarrow> string" where
  "posixDirname path = rev (drop 1 (dropWhile (\<lambda>c. c \<noteq> CHR ''/'') (rev path)))"

section \<open>Observing a run\<close>

text \<open>The requests a computation adds to the log of the world it starts in.\<close>

definition issued :: "'a io \<Rightarrow> world \<Rightarrow> request list" where
  "issued m w = drop (length (calls w)) (calls (snd (m w)))"

text \<open>The server answers the \<open>n\<close>-th request with a success status.\<close>

definition answeredOk :: "world \<Rightarrow> nat \<Rightarrow> request \<Rightarrow> bool" where
  "answeredOk w n req = (case server w n req of None \<Rightarrow> False | Some r \<Rightarrow> ok r)"

text \<open>
  The server answers the \<open>n\<close>-th request with a successful response whose JSON body
  carries the status \<open>st\<close>.
\<close>

definition answersStatus :: "world \<Rightarrow> nat \<Rightarrow> request \<Rightarrow> orderStatus \<Rightarrow> bool" where
  "answersStatus w n req st =
     (case server w n req of
        None \<Rightarrow> False
      | Some r \<Rightarrow> ok r \<and> json r = Some (StatusOf st))"

text \<open>
  A scripted sequence of statuses: from the \<open>n\<close>-th request of the run on, the
  server answers the status request with these statuses, one after the other.
\<close>

fun serves :: "world \<Rightarrow> nat \<Rightarrow> request \<Rightarrow> orderStatus list \<Rightarrow> bool" where
  "serves w n req [] = True"
| "serves w n req (st # sts) = (answersStatus w n req st \<and> serves w (Suc n) req sts)"

text \<open>The world after the pause of the polling loop.\<close>

definition paused :: "world \<Rightarrow> world" where
  "paused w = w\<lparr>sleeps := sleeps w @ [30000], trace := trace w @ [Slept 30000]\<rparr>"

text \<open>The world after one status has been fetched and logged to the console.\<close>

definition polled :: "string \<Rightarrow> request \<Rightarrow> orderStatus \<Rightarrow> world \<Rightarrow> world" where
  "polled orderId req st w =
     w\<lparr>calls := calls w @ [req], trace := trace w @ [Fetched req],
       console := console w @ [''Order '' @ orderId @ '' is '' @ message st @ ''.'']\<rparr>"

text \<open>
  What the polling loop needs of a \<^verbatim>\<open>getStatus\<close>: on a successful answer with a status
  it issues the one request and returns that status.
\<close>

definition fetchesStatus ::
  "(string \<Rightarrow> header list \<Rightarrow> orderStatus option io) \<Rightarrow>
     (string \<Rightarrow> header list \<Rightarrow> request) \<Rightarrow> bool" where
  "fetchesStatus getStatus mkReq =
     (\<forall>orderId headers w st.
        answersStatus w (length (calls w)) (mkReq orderId headers) st \<longrightarrow>
        getStatus orderId headers w =
          (Inr (Some st),
           w\<lparr>calls := calls w @ [mkReq orderId headers],
             trace := trace w @ [Fetched (mkReq orderId headers)]\<rparr>))"

section \<open>A stored archive format\<close>

text \<open>
  The compression itself is done by JSZip, outside the repository, and enters the
  theorems as the parameter \<open>generateAsync\<close> of the world. To have one concrete
  encoder with a decoder, here is a container without compression: every byte of a
  field is preceded by a 1, and a 0 ends the field; an entry is its name followed by
  its content.
\<close>

definition byteOfChar :: "char \<Rightarrow> 8 word" where
  "byteOfChar c = of_nat (of_char c)"

definition charOfByte :: "8 word \<Rightarrow> char" where
  "charOfByte b = char_of (unat b)"

fun storedField :: "bytes \<Rightarrow> bytes" where
  "storedField [] = [0]"
| "storedField (b # bs) = 1 # b # storedField bs"

fun storedZip :: "archive \<Rightarrow> bytes" where
  "storedZip [] = []"
| "storedZip ((name, content) # z) =
     storedField (map byteOfChar name) @ storedField content @ storedZip z"

fun storedUnzipAcc :: "archive \<Rightarrow> bytes \<Rightarrow> bytes option \<Rightarrow> bytes \<Rightarrow> archive option" where
  "storedUnzipAcc entries cur name [] =
     (if cur = [] \<and> name = None then Some (rev entries) else None)"
| "storedUnzipAcc entries cur name (t # rest) =
     (if t = 0 then
        (case name of
           None \<Rightarrow> storedUnzipAcc entries [] (Some (rev cur)) rest
         | Some n \<Rightarrow> storedUnzipAcc ((map charOfByte n, rev cur) # entries) [] None rest)
      else
        (case rest of
           [] \<Rightarrow> None
         | b # rest' \<Rightarrow> storedUnzipAcc entries (b # cur) name rest'))"

definition storedUnzip :: "bytes \<Rightarrow> archive option" where
  "storedUnzip bs = storedUnzipAcc [] [] None bs"

section \<open>Example worlds\<close>

definition exampleConfig :: config where
  "exampleConfig =
     \<lparr>email = ''a@b.com'', password = ''pw'', upperJawPath = ''scans/upper.stl'',
      lowerJawPath = ''scans/lower.stl'', outputDirectory = ''/tmp/out'', unns = [11, 21],
      rawEndpoint = ''example.com''\<rparr>"

text \<open>Two scans with the same file name in different folders.\<close>

definition clashConfig :: config where
  "clashConfig =
     \<lparr>email = ''a@b.com'', password = ''pw'', upperJawPath = ''upper/scan.stl'',
      lowerJawPath = ''lower/scan.stl'', outputDirectory = ''/tmp/out'', unns = [11, 21],
      rawEndpoint = ''example.com''\<rparr>"

definition answer ::
  "bool \<Rightarrow> nat \<Rightarrow> string option \<Rightarrow> payload option \<Rightarrow> bytes \<Rightarrow> response" where
  "answer isOk code cookie content raw =
     \<lparr>ok = isOk, statusCode = code, setCookie = cookie, json = content, bodyText = [],
      bodyBuffer = raw\<rparr>"

definition statusAnswer :: "orderStatus \<Rightarrow> response" where
  "statusAnswer st = answer True 200 None (Some (StatusOf st)) []"

text \<open>
  A server that answers the requests of a run from a script, whatever they are; the
  four scan files exist, every path can be written, and archives are stored.
\<close>

definition exampleWorld :: "response list \<Rightarrow> world" where
  "exampleWorld script =
     \<lparr>server = (\<lambda>n req. if n < length script then Some (script ! n) else None),
      calls = [],
      files = [''scans/upper.stl'' \<mapsto> [1, 2], ''scans/lower.stl'' \<mapsto> [3],
               ''upper/scan.stl'' \<mapsto> [1, 2], ''lower/scan.stl'' \<mapsto> [3]],
      writable = (\<lambda>path. True), written = [], sleeps = [], trace = [], console = [],
      generateAsync = storedZip, formBoundary = ''boundary''\<rparr>"

definition processingStatus :: orderStatus where
  "processingStatus =
     \<lparr>processing = True, failed = False, reviewable = False, accepted = False,
      message = ''processing''\<rparr>"

definition readyStatus :: orderStatus where
  "readyStatus =
     \<lparr>processing = False, failed = False, reviewable = True, accepted = False,
      message = ''ready''\<rparr>"

definition failedStatus :: orderStatus where
  "failedStatus =
     \<lparr>processing = False, failed = True, reviewable = False, accepted = False,
      message = ''failed''\<rparr>"

text \<open>A status that raises both flags.\<close>

definition failedWhileProcessing :: orderStatus where
  "failedWhileProcessing =
     \<lparr>processing = True, failed = True, reviewable = False, accepted = False,
      message = ''failed''\<rparr>"

definition exampleQualification :: "string \<Rightarrow> qualificationMessage" where
  "exampleQualification msg =
     \<lparr>errorMessage = msg, qOrderId = ''42'', qOrderFile = (''order.xml'', [7])\<rparr>"

text \<open>Answers of the xsrf endpoint and of the login endpoint.\<close>

definition tokenAnswer :: response where
  "tokenAnswer =
     answer True 200 (Some ''xsrf=1; path=/'') (Some (Tokens ''X-XSRF-TOKEN'' ''t0'')) []"

definition noCookieAnswer :: response where
  "noCookieAnswer = answer True 200 None (Some (Tokens ''X-XSRF-TOKEN'' ''t0'')) []"

definition rejectedAnswer :: response where
  "rejectedAnswer = answer False 401 None None []"

section \<open>Lemmas\<close>

lemmas io_defs = bind_def ret_def throw_def liftE_def fetch_def responseJson_def
  consoleLog_def sleep_def readFile_def writeFile_def

subsection \<open>Facts about the string operations\<close>

lemma endsWith_slash: "endsWith s ''/'' \<longleftrightarrow> s \<noteq> [] \<and> last s = CHR ''/''"
  by (cases s rule: rev_cases) (auto simp: endsWith_def)

lemma sliceStr_butlast: "sliceStr s 0 (- 1) = butlast s"
  by (auto simp: sliceStr_def Let_def butlast_conv_take nat_diff_distrib' max_def)

lemma startsWith_prefix: "startsWith s p \<longleftrightarrow> prefix p s"
  unfolding startsWith_def by (metis append_eq_conv_conj prefix_def)

lemma startsWith_snoc_slash: "startsWith (t @ ''/'') ''http'' = startsWith t ''http''"
  by (auto simp: startsWith_prefix)

lemma startsWith_butlast:
  "s \<noteq> [] \<Longrightarrow> last s = CHR ''/'' \<Longrightarrow>
   startsWith (butlast s) ''http'' = startsWith s ''http''"
  by (cases s rule: rev_cases) (simp_all add: startsWith_snoc_slash)

subsection \<open>What \<^const>\<open>getEndpoint\<close> computes\<close>

lemma getEndpoint_cases:
  "getEndpoint s =
     (if startsWith s ''http'' then dropSlash s else ''https://'' @ dropSlash s)"
  by (simp add: getEndpoint_def dropSlash_def endsWith_slash sliceStr_butlast
      startsWith_butlast)

lemma startsWith_getEndpoint: "startsWith (getEndpoint s) ''http''"
proof (cases "startsWith s ''http''")
  case True
  then show ?thesis
    by (simp add: getEndpoint_cases dropSlash_def startsWith_butlast)
next
  case False
  then show ?thesis
    by (simp add: getEndpoint_cases startsWith_def)
qed

lemma getEndpoint_twice: "getEndpoint (getEndpoint s) = dropSlash (getEndpoint s)"
  using startsWith_getEndpoint [of s] getEndpoint_cases [of "getEndpoint s"] by simp

lemma dropSlash_fixed: "dropSlash r = r \<longleftrightarrow> \<not> endsWith r ''/''"
proof (cases r rule: rev_cases)
  case Nil
  then show ?thesis by (simp add: dropSlash_def endsWith_def)
next
  case (snoc t c)
  then show ?thesis by (simp add: dropSlash_def endsWith_slash)
qed

lemma endsWith_getEndpoint:
  "endsWith (getEndpoint s) ''/'' \<longleftrightarrow> s = [] \<or> s = ''/'' \<or> endsWith s ''//''"
proof (cases s rule: rev_cases)
  case Nil
  then show ?thesis
    by (simp add: getEndpoint_cases dropSlash_def startsWith_def endsWith_def)
next
  case (snoc t c)
  show ?thesis
  proof (cases t rule: rev_cases)
    case Nil
    with \<open>s = t @ [c]\<close> show ?thesis
      by (simp add: getEndpoint_cases dropSlash_def startsWith_def endsWith_def)
  next
    case (snoc u d)
    with \<open>s = t @ [c]\<close> show ?thesis
      by (simp add: getEndpoint_cases dropSlash_def endsWith_slash endsWith_def
          butlast_append)
  qed
qed

section \<open>The endpoint resolver\<close>

text \<open>Exactly the inputs on which a second application changes nothing.\<close>

lemma getEndpoint_idempotent_iff:
  "getEndpoint (getEndpoint s) = getEndpoint s \<longleftrightarrow>
     s \<noteq> [] \<and> s \<noteq> ''/'' \<and> \<not> endsWith s ''//''"
  by (simp add: getEndpoint_twice dropSlash_fixed endsWith_getEndpoint)

text \<open>
  Claim C3, as stated: \<^verbatim>\<open>getEndpoint\<close> is idempotent on every input string. It is not:
  only one trailing slash is removed, so on the empty string the first application
  yields \<^verbatim>\<open>https://\<close> and the second removes a slash from that.
\<close>

theorem getEndpoint_not_idempotent:
  "getEndpoint '''' = ''https://'' \<and> getEndpoint (getEndpoint '''') = ''https:/''"
  by (simp add: getEndpoint_def endsWith_def startsWith_def sliceStr_def)

text \<open>
  Claim C3, amended: \<^verbatim>\<open>getEndpoint (getEndpoint s) = getEndpoint s\<close> for every string
  \<open>s\<close> that is not empty, is not the single slash and does not end in two slashes.
\<close>

theorem getEndpoint_idempotent:
  assumes "s \<noteq> []" and "s \<noteq> ''/''" and "\<not> endsWith s ''//''"
  shows "getEndpoint (getEndpoint s) = getEndpoint s"
proof -
  from assms have "\<not> endsWith (getEndpoint s) ''/''"
    by (simp add: endsWith_getEndpoint)
  then show ?thesis
    by (simp add: getEndpoint_twice dropSlash_fixed)
qed

theorem getEndpoint_idempotent_witness:
  "getEndpoint (getEndpoint ''https://example.com/'') = getEndpoint ''https://example.com/''
   \<and> getEndpoint ''https://example.com/'' = ''https://example.com''
   \<and> ''https://example.com/'' \<noteq> [] \<and> ''https://example.com/'' \<noteq> ''/''
   \<and> \<not> endsWith ''https://example.com/'' ''//''"
proof -
  have h: "''https://example.com/'' \<noteq> []" "''https://example.com/'' \<noteq> ''/''"
    "\<not> endsWith ''https://example.com/'' ''//''"
    by (simp_all add: endsWith_def)
  have v: "getEndpoint ''https://example.com/'' = ''https://example.com''"
    by (simp add: getEndpoint_def endsWith_def startsWith_def sliceStr_def)
  from getEndpoint_idempotent [OF h] h v show ?thesis by simp
qed

text \<open>
  Claim C7, as stated: \<^verbatim>\<open>https://\<close> is prefixed exactly when the input has no scheme.
  The script does not look for a scheme, it tests whether the string starts with the
  four characters \<^verbatim>\<open>http\<close>: the host name \<^verbatim>\<open>httpbin.org\<close> has no scheme and is
  returned without one.
\<close>

theorem getEndpoint_scheme_counterexample:
  "\<not> spec_hasScheme ''httpbin.org'' \<and> getEndpoint ''httpbin.org'' = ''httpbin.org''"
  by code_simp

text \<open>
  Claim C7, amended: for every input string, \<^verbatim>\<open>getEndpoint\<close> strips one trailing
  slash and prefixes \<^verbatim>\<open>https://\<close> exactly when the input does not start with the
  characters \<^verbatim>\<open>http\<close>; it is a total function on strings (no error result).
\<close>

theorem getEndpoint_strip_and_prefix:
  "getEndpoint s =
     (if startsWith s ''http'' then dropSlash s else ''https://'' @ dropSlash s)
   \<and> dropSlash s = (if s \<noteq> [] \<and> last s = CHR ''/'' then butlast s else s)
   \<and> startsWith (getEndpoint s) ''http''"
  by (intro conjI) (rule getEndpoint_cases, rule dropSlash_def, rule startsWith_getEndpoint)

section \<open>The status poller\<close>

lemma fetchesStatus_v3: "fetchesStatus (getStatus_v3 cfg) (statusRequest_v3 cfg)"
  by (auto simp: fetchesStatus_def answersStatus_def getStatus_v3_def io_defs
      split: option.splits)

lemma fetchesStatus_v2: "fetchesStatus (getStatus_v2 cfg) (statusRequest_v2 cfg)"
  by (auto simp: fetchesStatus_def answersStatus_def getStatus_v2_def io_defs
      split: option.splits)

lemma serves_server: "server w' = server w \<Longrightarrow> serves w' n req sts = serves w n req sts"
  by (induction sts arbitrary: n) (simp_all add: answersStatus_def)

text \<open>The loop, unfolded once: it stops on a status that is not processing \<dots>\<close>

lemma loop_done:
  "\<not> processing st \<Longrightarrow> waitForReady_loop gs orderId hs st w = Some (Inr st, w)"
  by (subst waitForReady_loop.simps) simp

text \<open>\<dots> and on a processing status it sleeps 30 seconds, fetches and goes on.\<close>

lemma loop_step:
  assumes "fetchesStatus gs mkReq" "processing st"
    "answersStatus w (length (calls w)) (mkReq orderId hs) st'"
  shows "waitForReady_loop gs orderId hs st w =
         waitForReady_loop gs orderId hs st' (polled orderId (mkReq orderId hs) st' (paused w))"
proof -
  let ?w = "paused w"
  from assms(3) have "answersStatus ?w (length (calls ?w)) (mkReq orderId hs) st'"
    by (simp add: answersStatus_def paused_def)
  with assms(1) have "gs orderId hs ?w =
        (Inr (Some st'),
         ?w\<lparr>calls := calls ?w @ [mkReq orderId hs],
            trace := trace ?w @ [Fetched (mkReq orderId hs)]\<rparr>)"
    unfolding fetchesStatus_def by blast
  moreover have "sleep 30000 w = (Inr (), ?w)"
    by (simp add: sleep_def paused_def)
  ultimately show ?thesis
    using assms(2)
    by (subst waitForReady_loop.simps)
      (simp add: bind_def logStatus_def consoleLog_def ret_def polled_def)
qed

lemma polled_paused:
  "server (polled orderId req st (paused w)) = server w"
  "length (calls (polled orderId req st (paused w))) = Suc (length (calls w))"
  "calls (polled orderId req st (paused w)) = calls w @ [req]"
  "sleeps (polled orderId req st (paused w)) = sleeps w @ [30000]"
  "trace (polled orderId req st (paused w)) = trace w @ [Slept 30000, Fetched req]"
  "written (polled orderId req st (paused w)) = written w"
  by (simp_all add: polled_def paused_def)

lemma polled_simps:
  "server (polled orderId req st w) = server w"
  "length (calls (polled orderId req st w)) = Suc (length (calls w))"
  "calls (polled orderId req st w) = calls w @ [req]"
  "sleeps (polled orderId req st w) = sleeps w"
  "trace (polled orderId req st w) = trace w @ [Fetched req]"
  "written (polled orderId req st w) = written w"
  by (simp_all add: polled_def)

lemma loop_script:
  assumes gs: "fetchesStatus gs mkReq"
    and fin: "\<not> processing final"
  shows "processing st \<Longrightarrow> \<forall>s \<in> set sts. processing s \<Longrightarrow>
     serves w (length (calls w)) (mkReq orderId hs) (sts @ [final]) \<Longrightarrow>
     \<exists>w'. waitForReady_loop gs orderId hs st w = Some (Inr final, w')
        \<and> server w' = server w
        \<and> calls w' = calls w @ replicate (Suc (length sts)) (mkReq orderId hs)
        \<and> sleeps w' = sleeps w @ replicate (Suc (length sts)) 30000
        \<and> trace w' = trace w @
             concat (replicate (Suc (length sts)) [Slept 30000, Fetched (mkReq orderId hs)])
        \<and> written w' = written w"
proof (induction sts arbitrary: st w)
  case Nil
  let ?w1 = "polled orderId (mkReq orderId hs) final (paused w)"
  from Nil have "answersStatus w (length (calls w)) (mkReq orderId hs) final" by simp
  from loop_step [OF gs Nil(1) this]
  have "waitForReady_loop gs orderId hs st w = waitForReady_loop gs orderId hs final ?w1" .
  also have "\<dots> = Some (Inr final, ?w1)" using fin by (rule loop_done)
  finally show ?case by (simp add: polled_paused)
next
  case (Cons s sts)
  let ?w1 = "polled orderId (mkReq orderId hs) s (paused w)"
  from Cons.prems have a: "answersStatus w (length (calls w)) (mkReq orderId hs) s"
    and rest: "serves w (Suc (length (calls w))) (mkReq orderId hs) (sts @ [final])"
    and ps: "processing s" and pr: "\<forall>s \<in> set sts. processing s"
    by simp_all
  have step: "waitForReady_loop gs orderId hs st w = waitForReady_loop gs orderId hs s ?w1"
    by (rule loop_step [OF gs Cons.prems(1) a])
  have sw: "server ?w1 = server w" and lc: "length (calls ?w1) = Suc (length (calls w))"
    by (simp_all add: polled_paused)
  have "serves ?w1 (length (calls ?w1)) (mkReq orderId hs) (sts @ [final])"
    unfolding lc serves_server [OF sw] by (rule rest)
  from Cons.IH [OF ps pr this] obtain w' where
    w': "waitForReady_loop gs orderId hs s ?w1 = Some (Inr final, w')"
      "server w' = server ?w1"
      "calls w' = calls ?w1 @ replicate (Suc (length sts)) (mkReq orderId hs)"
      "sleeps w' = sleeps ?w1 @ replicate (Suc (length sts)) 30000"
      "trace w' = trace ?w1 @
         concat (replicate (Suc (length sts)) [Slept 30000, Fetched (mkReq orderId hs)])"
      "written w' = written ?w1"
    by blast
  show ?case
    using step w' by (simp add: polled_paused replicate_app_Cons_same)
qed

text \<open>
  The whole of \<^verbatim>\<open>waitForReady\<close> on a script: the statuses \<open>sts\<close> are processing,
  \<open>final\<close> is the first that is not.
\<close>

lemma waitForReady_script_ex:
  assumes gs: "fetchesStatus gs mkReq"
    and fin: "\<not> processing final"
    and pr: "\<forall>s \<in> set sts. processing s"
    and sv: "serves w (length (calls w)) (mkReq orderId hs) (sts @ [final])"
  shows "\<exists>w'. waitForReady gs orderId hs w =
            Some (if failed final
                  then Inl (Error (''Processing failed for order '' @ orderId @ ''!''))
                  else Inr final, w')
        \<and> calls w' = calls w @ replicate (Suc (length sts)) (mkReq orderId hs)
        \<and> sleeps w' = sleeps w @ replicate (length sts) 30000
        \<and> trace w' = trace w @ Fetched (mkReq orderId hs) #
             concat (replicate (length sts) [Slept 30000, Fetched (mkReq orderId hs)])
        \<and> written w' = written w"
proof (cases sts)
  case Nil
  with sv have a: "answersStatus w (length (calls w)) (mkReq orderId hs) final" by simp
  have g: "gs orderId hs w =
      (Inr (Some final),
       w\<lparr>calls := calls w @ [mkReq orderId hs],
         trace := trace w @ [Fetched (mkReq orderId hs)]\<rparr>)"
    using gs a unfolding fetchesStatus_def by blast
  show ?thesis
    using Nil fin g
    by (simp add: waitForReady_def bind_def logStatus_def consoleLog_def ret_def loop_done)
next
  case (Cons s rest)
  let ?w1 = "polled orderId (mkReq orderId hs) s w"
  from Cons sv pr have a: "answersStatus w (length (calls w)) (mkReq orderId hs) s"
    and sv': "serves w (Suc (length (calls w))) (mkReq orderId hs) (rest @ [final])"
    and ps: "processing s" and pr': "\<forall>s \<in> set rest. processing s"
    by simp_all
  have g: "gs orderId hs w =
      (Inr (Some s),
       w\<lparr>calls := calls w @ [mkReq orderId hs],
         trace := trace w @ [Fetched (mkReq orderId hs)]\<rparr>)"
    using gs a unfolding fetchesStatus_def by blast
  have sw: "server ?w1 = server w" and lc: "length (calls ?w1) = Suc (length (calls w))"
    by (simp_all add: polled_simps)
  have "serves ?w1 (length (calls ?w1)) (mkReq orderId hs) (rest @ [final])"
    unfolding lc serves_server [OF sw] by (rule sv')
  from loop_script [OF gs fin ps pr' this] obtain w' where
    w': "waitForReady_loop gs orderId hs s ?w1 = Some (Inr final, w')"
      "calls w' = calls ?w1 @ replicate (Suc (length rest)) (mkReq orderId hs)"
      "sleeps w' = sleeps ?w1 @ replicate (Suc (length rest)) 30000"
      "trace w' = trace ?w1 @
         concat (replicate (Suc (length rest)) [Slept 30000, Fetched (mkReq orderId hs)])"
      "written w' = written ?w1"
    by blast
  have first: "bind (gs orderId hs) (logStatus orderId) w = (Inr s, ?w1)"
    using g by (simp add: bind_def logStatus_def consoleLog_def ret_def polled_def)
  show ?thesis
    using Cons first w'
    by (simp add: waitForReady_def bind_def consoleLog_def ret_def polled_simps
        replicate_app_Cons_same)
qed

lemma waitForReady_script:
  assumes "fetchesStatus gs mkReq" "\<not> processing final" "\<forall>s \<in> set sts. processing s"
    "serves w (length (calls w)) (mkReq orderId hs) (sts @ [final])"
  shows "map_option fst (waitForReady gs orderId hs w) =
           Some (if failed final
                 then Inl (Error (''Processing failed for order '' @ orderId @ ''!''))
                 else Inr final)"
    and "map_option (calls \<circ> snd) (waitForReady gs orderId hs w) =
           Some (calls w @ replicate (Suc (length sts)) (mkReq orderId hs))"
    and "map_option (sleeps \<circ> snd) (waitForReady gs orderId hs w) =
           Some (sleeps w @ replicate (length sts) 30000)"
    and "map_option (trace \<circ> snd) (waitForReady gs orderId hs w) =
           Some (trace w @ Fetched (mkReq orderId hs) #
                 concat (replicate (length sts) [Slept 30000, Fetched (mkReq orderId hs)]))"
  using waitForReady_script_ex [OF assms] by auto

text \<open>
  Claim C4: given the scripted statuses processing, processing, ready, \<^verbatim>\<open>waitForReady\<close>
  issues exactly three status calls and returns the ready status; in general it polls
  until the first status that is not processing, sleeping a fixed 30 seconds between
  two fetches. Here \<open>sts\<close> are the processing statuses the server reports and
  \<open>final\<close> is the first status that is not processing: the run ends (the result is
  \<open>Some\<close>) with \<open>final\<close> as its result, or with the error of a failed order, after
  \<open>length sts + 1\<close> status requests and \<open>length sts\<close> sleeps of 30000 ms; and the
  trace shows their order: the first fetch, and then, for every processing status, a
  sleep of 30000 ms followed by the next fetch. No fetch follows another without the
  sleep in between, and nothing happens after the fetch that brings \<open>final\<close>.
\<close>

theorem waitForReady_polls_until_not_processing:
  assumes "\<not> processing final" and "\<forall>s \<in> set sts. processing s"
  shows
    "(serves w (length (calls w)) (statusRequest_v3 cfg orderId headers) (sts @ [final]) \<longrightarrow>
        map_option fst (waitForReady_v3 cfg orderId headers w) =
          Some (if failed final
                then Inl (Error (''Processing failed for order '' @ orderId @ ''!''))
                else Inr final)
        \<and> map_option (calls \<circ> snd) (waitForReady_v3 cfg orderId headers w) =
            Some (calls w @ replicate (length sts + 1) (statusRequest_v3 cfg orderId headers))
        \<and> map_option (sleeps \<circ> snd) (waitForReady_v3 cfg orderId headers w) =
            Some (sleeps w @ replicate (length sts) 30000)
        \<and> map_option (trace \<circ> snd) (waitForReady_v3 cfg orderId headers w) =
            Some (trace w @ Fetched (statusRequest_v3 cfg orderId headers) #
                  concat (replicate (length sts)
                    [Slept 30000, Fetched (statusRequest_v3 cfg orderId headers)])))
   \<and> (serves w (length (calls w)) (statusRequest_v2 cfg orderId headers) (sts @ [final]) \<longrightarrow>
        map_option fst (waitForReady_v2 cfg orderId headers w) =
          Some (if failed final
                then Inl (Error (''Processing failed for order '' @ orderId @ ''!''))
                else Inr final)
        \<and> map_option (calls \<circ> snd) (waitForReady_v2 cfg orderId headers w) =
            Some (calls w @ replicate (length sts + 1) (statusRequest_v2 cfg orderId headers))
        \<and> map_option (sleeps \<circ> snd) (waitForReady_v2 cfg orderId headers w) =
            Some (sleeps w @ replicate (length sts) 30000)
        \<and> map_option (trace \<circ> snd) (waitForReady_v2 cfg orderId headers w) =
            Some (trace w @ Fetched (statusRequest_v2 cfg orderId headers) #
                  concat (replicate (length sts)
                    [Slept 30000, Fetched (statusRequest_v2 cfg orderId headers)])))"
  unfolding waitForReady_v3_def waitForReady_v2_def
  using waitForReady_script [OF fetchesStatus_v3 assms]
    waitForReady_script [OF fetchesStatus_v2 assms]
  by simp

theorem waitForReady_polls_witness:
  "\<not> processing readyStatus \<and> processing processingStatus
   \<and> map_option fst (waitForReady_v3 exampleConfig ''42'' []
        (exampleWorld [statusAnswer processingStatus, statusAnswer processingStatus,
                       statusAnswer readyStatus])) = Some (Inr readyStatus)
   \<and> map_option (length \<circ> calls \<circ> snd) (waitForReady_v3 exampleConfig ''42'' []
        (exampleWorld [statusAnswer processingStatus, statusAnswer processingStatus,
                       statusAnswer readyStatus])) = Some 3
   \<and> map_option (sleeps \<circ> snd) (waitForReady_v3 exampleConfig ''42'' []
        (exampleWorld [statusAnswer processingStatus, statusAnswer processingStatus,
                       statusAnswer readyStatus])) = Some [30000, 30000]
   \<and> map_option (trace \<circ> snd) (waitForReady_v3 exampleConfig ''42'' []
        (exampleWorld [statusAnswer processingStatus, statusAnswer processingStatus,
                       statusAnswer readyStatus])) =
       Some [Fetched (statusRequest_v3 exampleConfig ''42'' []), Slept 30000,
             Fetched (statusRequest_v3 exampleConfig ''42'' []), Slept 30000,
             Fetched (statusRequest_v3 exampleConfig ''42'' [])]
   \<and> map_option fst (waitForReady_v2 exampleConfig ''42'' []
        (exampleWorld [statusAnswer processingStatus, statusAnswer processingStatus,
                       statusAnswer readyStatus])) = Some (Inr readyStatus)
   \<and> map_option (length \<circ> calls \<circ> snd) (waitForReady_v2 exampleConfig ''42'' []
        (exampleWorld [statusAnswer processingStatus, statusAnswer processingStatus,
                       statusAnswer readyStatus])) = Some 3
   \<and> map_option (sleeps \<circ> snd) (waitForReady_v2 exampleConfig ''42'' []
        (exampleWorld [statusAnswer processingStatus, statusAnswer processingStatus,
                       statusAnswer readyStatus])) = Some [30000, 30000]
   \<and> map_option (trace \<circ> snd) (waitForReady_v2 exampleConfig ''42'' []
        (exampleWorld [statusAnswer processingStatus, statusAnswer processingStatus,
                       statusAnswer readyStatus])) =
       Some [Fetched (statusRequest_v2 exampleConfig ''42'' []), Slept 30000,
             Fetched (statusRequest_v2 exampleConfig ''42'' []), Slept 30000,
             Fetched (statusRequest_v2 exampleConfig ''42'' [])]"
proof -
  let ?w = "exampleWorld [statusAnswer processingStatus, statusAnswer processingStatus,
                          statusAnswer readyStatus]"
  have f: "\<not> processing readyStatus" "\<not> failed readyStatus"
    by (simp_all add: readyStatus_def)
  have p: "\<forall>s \<in> set [processingStatus, processingStatus]. processing s"
    by (simp add: processingStatus_def)
  have s: "serves ?w (length (calls ?w)) req
             ([processingStatus, processingStatus] @ [readyStatus])" for req
    by (simp add: exampleWorld_def answersStatus_def statusAnswer_def answer_def)
  have e: "calls ?w = []" "sleeps ?w = []" "trace ?w = []"
    by (simp_all add: exampleWorld_def)
  from waitForReady_polls_until_not_processing
         [OF f(1) p, of ?w exampleConfig "''42''" "[]"] s f p e
  show ?thesis
    by (auto simp: numeral_2_eq_2)
qed

text \<open>
  Claim C1, as stated: whenever a fetched status has the failed flag,
  \<^verbatim>\<open>waitForReady\<close> raises an error and issues no further status call. The loop tests
  \<^verbatim>\<open>status.processing\<close> first and looks at \<^verbatim>\<open>status.failed\<close> only after the loop:
  on a status that raises both flags it goes on polling. Here the server reports such
  a status and then a ready one; two calls are made and the ready status is returned.
\<close>

theorem waitForReady_failed_while_processing:
  "failed failedWhileProcessing
   \<and> map_option fst (waitForReady_v3 exampleConfig ''42'' []
        (exampleWorld [statusAnswer failedWhileProcessing, statusAnswer readyStatus]))
       = Some (Inr readyStatus)
   \<and> map_option (length \<circ> calls \<circ> snd) (waitForReady_v3 exampleConfig ''42'' []
        (exampleWorld [statusAnswer failedWhileProcessing, statusAnswer readyStatus]))
       = Some 2
   \<and> map_option fst (waitForReady_v2 exampleConfig ''42'' []
        (exampleWorld [statusAnswer failedWhileProcessing, statusAnswer readyStatus]))
       = Some (Inr readyStatus)
   \<and> map_option (length \<circ> calls \<circ> snd) (waitForReady_v2 exampleConfig ''42'' []
        (exampleWorld [statusAnswer failedWhileProcessing, statusAnswer readyStatus]))
       = Some 2"
proof -
  let ?w = "exampleWorld [statusAnswer failedWhileProcessing, statusAnswer readyStatus]"
  have f: "\<not> processing readyStatus" "\<not> failed readyStatus"
    by (simp_all add: readyStatus_def)
  have p: "\<forall>s \<in> set [failedWhileProcessing]. processing s"
    and q: "failed failedWhileProcessing"
    by (simp_all add: failedWhileProcessing_def)
  have s: "serves ?w (length (calls ?w)) req ([failedWhileProcessing] @ [readyStatus])" for req
    by (simp add: exampleWorld_def answersStatus_def statusAnswer_def answer_def)
  have c: "calls ?w = []"
    by (simp add: exampleWorld_def)
  note v3 = waitForReady_script [where gs = "getStatus_v3 exampleConfig"
      and mkReq = "statusRequest_v3 exampleConfig" and orderId = "''42''" and hs = "[]",
      OF fetchesStatus_v3 f(1) p s]
  note v2 = waitForReady_script [where gs = "getStatus_v2 exampleConfig"
      and mkReq = "statusRequest_v2 exampleConfig" and orderId = "''42''" and hs = "[]",
      OF fetchesStatus_v2 f(1) p s]
  from v3(1,2) v2(1,2) f(2) q c show ?thesis
    unfolding waitForReady_v3_def waitForReady_v2_def by auto
qed

text \<open>
  Claim C1, amended: if \<^verbatim>\<open>waitForReady\<close> observes a fetched status whose failed flag
  is true and whose processing flag is false, it raises a fatal error and issues no
  further status call. The statuses \<open>sts\<close> fetched before are processing; the failed
  status is answer number \<open>length sts + 1\<close>, and exactly that many requests are in the
  log when the error is raised.
\<close>

theorem waitForReady_raises_on_failed:
  assumes "failed final" and "\<not> processing final" and "\<forall>s \<in> set sts. processing s"
  shows
    "(serves w (length (calls w)) (statusRequest_v3 cfg orderId headers) (sts @ [final]) \<longrightarrow>
        map_option fst (waitForReady_v3 cfg orderId headers w) =
          Some (Inl (Error (''Processing failed for order '' @ orderId @ ''!'')))
        \<and> map_option (calls \<circ> snd) (waitForReady_v3 cfg orderId headers w) =
            Some (calls w @ replicate (length sts + 1) (statusRequest_v3 cfg orderId headers)))
   \<and> (serves w (length (calls w)) (statusRequest_v2 cfg orderId headers) (sts @ [final]) \<longrightarrow>
        map_option fst (waitForReady_v2 cfg orderId headers w) =
          Some (Inl (Error (''Processing failed for order '' @ orderId @ ''!'')))
        \<and> map_option (calls \<circ> snd) (waitForReady_v2 cfg orderId headers w) =
            Some (calls w @ replicate (length sts + 1) (statusRequest_v2 cfg orderId headers)))"
  unfolding waitForReady_v3_def waitForReady_v2_def
  using waitForReady_script [OF fetchesStatus_v3 assms(2,3)]
    waitForReady_script [OF fetchesStatus_v2 assms(2,3)] assms(1)
  by simp


theorem waitForReady_raises_on_failed_witness:
  "failed failedStatus \<and> \<not> processing failedStatus \<and> processing processingStatus
   \<and> map_option fst (waitForReady_v3 exampleConfig ''42'' []
        (exampleWorld [statusAnswer processingStatus, statusAnswer failedStatus,
                       statusAnswer readyStatus]))
       = Some (Inl (Error ''Processing failed for order 42!''))
   \<and> map_option (length \<circ> calls \<circ> snd) (waitForReady_v3 exampleConfig ''42'' []
        (exampleWorld [statusAnswer processingStatus, statusAnswer failedStatus,
                       statusAnswer readyStatus]))
       = Some 2
   \<and> map_option fst (waitForReady_v2 exampleConfig ''42'' []
        (exampleWorld [statusAnswer processingStatus, statusAnswer failedStatus,
                       statusAnswer readyStatus]))
       = Some (Inl (Error ''Processing failed for order 42!''))
   \<and> map_option (length \<circ> calls \<circ> snd) (waitForReady_v2 exampleConfig ''42'' []
        (exampleWorld [statusAnswer processingStatus, statusAnswer failedStatus,
                       statusAnswer readyStatus]))
       = Some 2"
proof -
  let ?w = "exampleWorld [statusAnswer processingStatus, statusAnswer failedStatus,
                          statusAnswer readyStatus]"
  have f: "failed failedStatus" "\<not> processing failedStatus"
    by (simp_all add: failedStatus_def)
  have p: "\<forall>s \<in> set [processingStatus]. processing s"
    by (simp add: processingStatus_def)
  have s: "serves ?w (length (calls ?w)) req ([processingStatus] @ [failedStatus])" for req
    by (simp add: exampleWorld_def answersStatus_def statusAnswer_def answer_def)
  have c: "calls ?w = []"
    by (simp add: exampleWorld_def)
  from waitForReady_raises_on_failed [OF f p, of ?w exampleConfig "''42''" "[]"] s f p c
  show ?thesis
    by auto
qed


section \<open>Cookies and login\<close>

lemma getCookies_null:
  "setCookie r = None \<Longrightarrow>
   getCookies r = Inl (TypeError ''Cannot read properties of null (reading split)'')"
  by (simp add: getCookies_def)

lemma getCookies_throws_iff: "isl (getCookies r) \<longleftrightarrow> setCookie r = None"
  by (simp add: getCookies_def split: option.splits)

lemma getAntiforgeryHeaders_null:
  "server w (length (calls w)) (xsrfRequest_v3 cfg hs) = Some r \<Longrightarrow> ok r \<Longrightarrow>
   setCookie r = None \<Longrightarrow>
   fst (getAntiforgeryHeaders cfg hs w) =
     Inl (TypeError ''Cannot read properties of null (reading split)'')"
  by (simp add: getAntiforgeryHeaders_def io_defs getCookies_def)

lemma getTokens_null:
  "server w (length (calls w)) (xsrfRequest_v2 cfg hs) = Some r \<Longrightarrow> ok r \<Longrightarrow>
   setCookie r = None \<Longrightarrow>
   fst (getTokens cfg hs w) =
     Inl (TypeError ''Cannot read properties of null (reading split)'')"
  by (simp add: getTokens_def io_defs getCookies_def)

lemma login_v3_tokens_null:
  "server w (length (calls w)) (xsrfRequest_v3 cfg []) = Some r \<Longrightarrow> ok r \<Longrightarrow>
   setCookie r = None \<Longrightarrow>
   fst (login_v3 cfg w) = Inl (TypeError ''Cannot read properties of null (reading split)'')"
  by (simp add: login_v3_def getAntiforgeryHeaders_def io_defs getCookies_def)

lemma login_v2_tokens_null:
  "server w (length (calls w)) (xsrfRequest_v2 cfg []) = Some r \<Longrightarrow> ok r \<Longrightarrow>
   setCookie r = None \<Longrightarrow>
   fst (login_v2 cfg w) = Inl (TypeError ''Cannot read properties of null (reading split)'')"
  by (simp add: login_v2_def getTokens_def io_defs getCookies_def)

lemma login_v3_response_null:
  "server w (length (calls w)) (xsrfRequest_v3 cfg []) = Some r0 \<Longrightarrow> ok r0 \<Longrightarrow>
   setCookie r0 = Some c0 \<Longrightarrow> json r0 = Some p0 \<Longrightarrow>
   \<forall>hs. server w (Suc (length (calls w))) (loginRequest_v3 cfg hs) = Some r \<Longrightarrow>
   ok r \<Longrightarrow> setCookie r = None \<Longrightarrow>
   fst (login_v3 cfg w) = Inl (TypeError ''Cannot read properties of null (reading split)'')"
  by (simp add: login_v3_def getAntiforgeryHeaders_def getAuthHeader_def io_defs
      getCookies_def Let_def)

lemma login_v2_response_null:
  "server w (length (calls w)) (xsrfRequest_v2 cfg []) = Some r0 \<Longrightarrow> ok r0 \<Longrightarrow>
   setCookie r0 = Some c0 \<Longrightarrow> json r0 = Some p0 \<Longrightarrow>
   \<forall>hs. server w (Suc (length (calls w))) (loginRequest_v2 cfg hs) = Some r \<Longrightarrow>
   ok r \<Longrightarrow> setCookie r = None \<Longrightarrow>
   fst (login_v2 cfg w) = Inl (TypeError ''Cannot read properties of null (reading split)'')"
  by (simp add: login_v2_def getTokens_def getFinalHeaders_def io_defs getCookies_def
      Let_def)

text \<open>
  Claim C10: \<^verbatim>\<open>getCookies\<close> returns only when the response carries a
  \<^verbatim>\<open>set-cookie\<close> header. For a successful response \<open>r\<close> without that header,
  \<^verbatim>\<open>getCookies\<close> throws a \<^verbatim>\<open>TypeError\<close>, and so does every caller that hands it
  \<open>r\<close>: the token fetch of either script, a login whose token fetch is answered with
  \<open>r\<close>, and a login whose credentials are accepted with \<open>r\<close> (after a token fetch
  \<open>r0\<close> that went well). None of them reaches one of the script's own \<^verbatim>\<open>Error\<close>
  messages.
\<close>

theorem getCookies_needs_set_cookie:
  assumes "setCookie r = None" and "ok r"
  shows
    "getCookies r = Inl (TypeError ''Cannot read properties of null (reading split)'')
   \<and> (isl (getCookies r') \<longleftrightarrow> setCookie r' = None)
   \<and> (server w (length (calls w)) (xsrfRequest_v3 cfg headers) = Some r \<longrightarrow>
        fst (getAntiforgeryHeaders cfg headers w) =
          Inl (TypeError ''Cannot read properties of null (reading split)''))
   \<and> (server w (length (calls w)) (xsrfRequest_v2 cfg headers) = Some r \<longrightarrow>
        fst (getTokens cfg headers w) =
          Inl (TypeError ''Cannot read properties of null (reading split)''))
   \<and> (server w (length (calls w)) (xsrfRequest_v3 cfg []) = Some r \<longrightarrow>
        fst (login_v3 cfg w) =
          Inl (TypeError ''Cannot read properties of null (reading split)''))
   \<and> (server w (length (calls w)) (xsrfRequest_v2 cfg []) = Some r \<longrightarrow>
        fst (login_v2 cfg w) =
          Inl (TypeError ''Cannot read properties of null (reading split)''))
   \<and> (server w' (length (calls w')) (xsrfRequest_v3 cfg []) = Some r0 \<and> ok r0
        \<and> setCookie r0 = Some c0 \<and> json r0 = Some p0
        \<and> (\<forall>hs. server w' (Suc (length (calls w'))) (loginRequest_v3 cfg hs) = Some r) \<longrightarrow>
        fst (login_v3 cfg w') =
          Inl (TypeError ''Cannot read properties of null (reading split)''))
   \<and> (server w' (length (calls w')) (xsrfRequest_v2 cfg []) = Some r0 \<and> ok r0
        \<and> setCookie r0 = Some c0 \<and> json r0 = Some p0
        \<and> (\<forall>hs. server w' (Suc (length (calls w'))) (loginRequest_v2 cfg hs) = Some r) \<longrightarrow>
        fst (login_v2 cfg w') =
          Inl (TypeError ''Cannot read properties of null (reading split)''))"
proof (intro conjI impI)
  show "getCookies r = Inl (TypeError ''Cannot read properties of null (reading split)'')"
    using assms(1) by (rule getCookies_null)
  show "isl (getCookies r') \<longleftrightarrow> setCookie r' = None"
    by (rule getCookies_throws_iff)
next
  assume "server w (length (calls w)) (xsrfRequest_v3 cfg headers) = Some r"
  then show "fst (getAntiforgeryHeaders cfg headers w) =
      Inl (TypeError ''Cannot read properties of null (reading split)'')"
    using assms by (simp add: getAntiforgeryHeaders_null)
next
  assume "server w (length (calls w)) (xsrfRequest_v2 cfg headers) = Some r"
  then show "fst (getTokens cfg headers w) =
      Inl (TypeError ''Cannot read properties of null (reading split)'')"
    using assms by (simp add: getTokens_null)
next
  assume "server w (length (calls w)) (xsrfRequest_v3 cfg []) = Some r"
  then show "fst (login_v3 cfg w) =
      Inl (TypeError ''Cannot read properties of null (reading split)'')"
    using assms by (simp add: login_v3_tokens_null)
next
  assume "server w (length (calls w)) (xsrfRequest_v2 cfg []) = Some r"
  then show "fst (login_v2 cfg w) =
      Inl (TypeError ''Cannot read properties of null (reading split)'')"
    using assms by (simp add: login_v2_tokens_null)
next
  assume "server w' (length (calls w')) (xsrfRequest_v3 cfg []) = Some r0 \<and> ok r0
        \<and> setCookie r0 = Some c0 \<and> json r0 = Some p0
        \<and> (\<forall>hs. server w' (Suc (length (calls w'))) (loginRequest_v3 cfg hs) = Some r)"
  then show "fst (login_v3 cfg w') =
      Inl (TypeError ''Cannot read properties of null (reading split)'')"
    using assms login_v3_response_null [of w' cfg r0 c0 p0 r] by blast
next
  assume "server w' (length (calls w')) (xsrfRequest_v2 cfg []) = Some r0 \<and> ok r0
        \<and> setCookie r0 = Some c0 \<and> json r0 = Some p0
        \<and> (\<forall>hs. server w' (Suc (length (calls w'))) (loginRequest_v2 cfg hs) = Some r)"
  then show "fst (login_v2 cfg w') =
      Inl (TypeError ''Cannot read properties of null (reading split)'')"
    using assms login_v2_response_null [of w' cfg r0 c0 p0 r] by blast
qed


theorem getCookies_needs_set_cookie_witness:
  "setCookie noCookieAnswer = None \<and> ok noCookieAnswer
   \<and> getCookies noCookieAnswer =
       Inl (TypeError ''Cannot read properties of null (reading split)'')
   \<and> fst (getAntiforgeryHeaders exampleConfig [] (exampleWorld [noCookieAnswer])) =
       Inl (TypeError ''Cannot read properties of null (reading split)'')
   \<and> fst (getTokens exampleConfig [] (exampleWorld [noCookieAnswer])) =
       Inl (TypeError ''Cannot read properties of null (reading split)'')
   \<and> fst (login_v3 exampleConfig (exampleWorld [noCookieAnswer])) =
       Inl (TypeError ''Cannot read properties of null (reading split)'')
   \<and> fst (login_v2 exampleConfig (exampleWorld [noCookieAnswer])) =
       Inl (TypeError ''Cannot read properties of null (reading split)'')
   \<and> fst (login_v3 exampleConfig (exampleWorld [tokenAnswer, noCookieAnswer])) =
       Inl (TypeError ''Cannot read properties of null (reading split)'')
   \<and> fst (login_v2 exampleConfig (exampleWorld [tokenAnswer, noCookieAnswer])) =
       Inl (TypeError ''Cannot read properties of null (reading split)'')"
proof -
  let ?w = "exampleWorld [noCookieAnswer]"
  let ?w' = "exampleWorld [tokenAnswer, noCookieAnswer]"
  have a: "setCookie noCookieAnswer = None" "ok noCookieAnswer"
    by (simp_all add: noCookieAnswer_def answer_def)
  have b: "server ?w (length (calls ?w)) req = Some noCookieAnswer" for req
    by (simp add: exampleWorld_def)
  have c: "server ?w' (length (calls ?w')) req = Some tokenAnswer"
    "server ?w' (Suc (length (calls ?w'))) req = Some noCookieAnswer" for req
    by (simp_all add: exampleWorld_def)
  have d: "ok tokenAnswer" "setCookie tokenAnswer = Some ''xsrf=1; path=/''"
    "json tokenAnswer = Some (Tokens ''X-XSRF-TOKEN'' ''t0'')"
    by (simp_all add: tokenAnswer_def answer_def)
  from getCookies_needs_set_cookie [OF a, of noCookieAnswer ?w exampleConfig "[]" ?w'
      tokenAnswer "''xsrf=1; path=/''" "Tokens ''X-XSRF-TOKEN'' ''t0''"] a b c d
  show ?thesis
    by simp
qed

text \<open>
  Claim C5: every failing HTTP call raises an error whose message names the failing
  step, with the HTTP status where there is one; in particular a rejected login. The
  v2 script does so (\<^verbatim>\<open>Unable to log in!\<close>). The v3 script builds its message from
  \<^verbatim>\<open>response.status\<close>, a variable that does not exist in \<^verbatim>\<open>login\<close>: when the
  server answers the login request with status 401, what is thrown is the runtime's
  \<^verbatim>\<open>ReferenceError\<close>, and neither the step nor the status 401 is in its message.
\<close>

theorem login_v3_rejected_raises_ReferenceError:
  "\<not> ok rejectedAnswer \<and> statusCode rejectedAnswer = 401
   \<and> fst (login_v3 exampleConfig (exampleWorld [tokenAnswer, rejectedAnswer])) =
       Inl (ReferenceError ''response is not defined'')
   \<and> fst (login_v2 exampleConfig (exampleWorld [tokenAnswer, rejectedAnswer])) =
       Inl (Error ''Unable to log in!'')"
  by (simp add: login_v3_def login_v2_def getAntiforgeryHeaders_def getTokens_def
      getAuthHeader_def io_defs getCookies_def Let_def exampleWorld_def tokenAnswer_def
      rejectedAnswer_def answer_def)


section \<open>The result finalizer\<close>

lemma issued_acceptAndDownload:
  "issued (acceptAndDownload cfg hs oid st) w =
     (if reviewable st then [reviewRequest cfg hs oid ''accept''] else []) @
     (if reviewable st \<and>
         \<not> answeredOk w (length (calls w)) (reviewRequest cfg hs oid ''accept'')
      then [] else [downloadRequest_v3 cfg hs oid])"
  by (auto simp: issued_def acceptAndDownload_def review_def download_v3_def io_defs
      answeredOk_def Let_def split: option.splits)

lemma issued_download_v2:
  "issued (download_v2 cfg oid st hs) w =
     (if \<not> accepted st then [acceptRequest cfg hs oid] else []) @
     (if \<not> accepted st \<and> \<not> answeredOk w (length (calls w)) (acceptRequest cfg hs oid)
      then [] else [downloadRequest_v2 cfg hs oid])"
  by (auto simp: issued_def download_v2_def io_defs answeredOk_def Let_def
      split: option.splits)

lemma review_neq_download: "reviewRequest cfg hs oid a \<noteq> downloadRequest_v3 cfg hs oid"
  by (simp add: reviewRequest_def downloadRequest_v3_def)

lemma accept_neq_download: "acceptRequest cfg hs oid \<noteq> downloadRequest_v2 cfg hs oid"
  by (simp add: acceptRequest_def downloadRequest_v2_def)

lemma acceptAndDownload_rejected:
  "reviewable st \<Longrightarrow>
   \<not> answeredOk w (length (calls w)) (reviewRequest cfg hs oid ''accept'') \<Longrightarrow>
   isl (fst (acceptAndDownload cfg hs oid st w))"
  by (auto simp: acceptAndDownload_def review_def io_defs answeredOk_def Let_def
      split: option.splits)

lemma download_v2_rejected:
  "\<not> accepted st \<Longrightarrow> \<not> answeredOk w (length (calls w)) (acceptRequest cfg hs oid) \<Longrightarrow>
   isl (fst (download_v2 cfg oid st hs w))"
  by (auto simp: download_v2_def io_defs answeredOk_def Let_def split: option.splits)

text \<open>
  Claim C6, as stated: in v3 the review (accept) call is issued if and only if the
  terminal status reports reviewable, in v2 the accept call is issued if and only if
  the terminal status does not report accepted, and in both versions the download call
  is issued afterwards regardless. The two policies are as stated, but the download
  does not follow regardless: when the server rejects the review (here with status
  409), \<^verbatim>\<open>review\<close> throws and \<^verbatim>\<open>acceptAndDownload\<close> ends there; the only request
  issued is the review, and the same holds for the accept call of v2.
\<close>

theorem download_not_issued_after_rejected_accept:
  "reviewable readyStatus \<and> \<not> accepted readyStatus
   \<and> fst (acceptAndDownload exampleConfig [] ''42'' readyStatus
        (exampleWorld [answer False 409 None None [], answer True 200 None None [9]])) =
       Inl (Error ''Unable to accept order 42! [409]'')
   \<and> issued (acceptAndDownload exampleConfig [] ''42'' readyStatus)
        (exampleWorld [answer False 409 None None [], answer True 200 None None [9]]) =
       [reviewRequest exampleConfig [] ''42'' ''accept'']
   \<and> fst (download_v2 exampleConfig ''42'' readyStatus []
        (exampleWorld [answer False 409 None None [], answer True 200 None None [9]])) =
       Inl (Error ''Unable to accept order 42!'')
   \<and> issued (download_v2 exampleConfig ''42'' readyStatus [])
        (exampleWorld [answer False 409 None None [], answer True 200 None None [9]]) =
       [acceptRequest exampleConfig [] ''42'']"
proof -
  let ?w = "exampleWorld [answer False 409 None None [], answer True 200 None None [9]]"
  have f: "reviewable readyStatus" "\<not> accepted readyStatus"
    by (simp_all add: readyStatus_def)
  have c: "length (calls ?w) = 0"
    by (simp add: exampleWorld_def)
  have a: "\<not> answeredOk ?w 0 req" for req
    by (simp add: answeredOk_def exampleWorld_def answer_def)
  have r: "fst (acceptAndDownload exampleConfig [] ''42'' readyStatus ?w) =
             Inl (Error ''Unable to accept order 42! [409]'')"
    "fst (download_v2 exampleConfig ''42'' readyStatus [] ?w) =
             Inl (Error ''Unable to accept order 42!'')"
    by (simp_all add: acceptAndDownload_def review_def download_v2_def io_defs
        exampleWorld_def answer_def readyStatus_def showNat.simps digitChar_def)
  from f c a r show ?thesis
    by (simp add: issued_acceptAndDownload issued_download_v2)
qed

text \<open>
  Claim C6, amended: in v3 the review (accept) call is issued if and only if the
  terminal status reports reviewable; in v2 the accept call is issued if and only if
  the terminal status does not already report accepted; in both versions the download
  call is issued afterwards whenever the review or accept call was not needed or was
  answered with success. When that call is rejected, the run ends with an error and
  the download call is not issued. The requests issued are read off the log.
\<close>

theorem accept_policy_and_download:
  "(reviewRequest cfg hs oid ''accept'' \<in> set (issued (acceptAndDownload cfg hs oid st) w)
      \<longleftrightarrow> reviewable st)
   \<and> (acceptRequest cfg hs oid \<in> set (issued (download_v2 cfg oid st hs) w)
      \<longleftrightarrow> \<not> accepted st)
   \<and> ((reviewable st \<longrightarrow>
         answeredOk w (length (calls w)) (reviewRequest cfg hs oid ''accept'')) \<longrightarrow>
       issued (acceptAndDownload cfg hs oid st) w =
         (if reviewable st then [reviewRequest cfg hs oid ''accept''] else []) @
         [downloadRequest_v3 cfg hs oid])
   \<and> ((\<not> accepted st \<longrightarrow> answeredOk w (length (calls w)) (acceptRequest cfg hs oid)) \<longrightarrow>
       issued (download_v2 cfg oid st hs) w =
         (if \<not> accepted st then [acceptRequest cfg hs oid] else []) @
         [downloadRequest_v2 cfg hs oid])
   \<and> (reviewable st
        \<and> \<not> answeredOk w (length (calls w)) (reviewRequest cfg hs oid ''accept'') \<longrightarrow>
       isl (fst (acceptAndDownload cfg hs oid st w))
       \<and> issued (acceptAndDownload cfg hs oid st) w = [reviewRequest cfg hs oid ''accept''])
   \<and> (\<not> accepted st \<and> \<not> answeredOk w (length (calls w)) (acceptRequest cfg hs oid) \<longrightarrow>
       isl (fst (download_v2 cfg oid st hs w))
       \<and> issued (download_v2 cfg oid st hs) w = [acceptRequest cfg hs oid])"
  using review_neq_download [of cfg hs oid "''accept''"] accept_neq_download [of cfg hs oid]
    acceptAndDownload_rejected [of st w cfg hs oid] download_v2_rejected [of st w cfg hs oid]
  by (auto simp: issued_acceptAndDownload issued_download_v2)

theorem accept_policy_and_download_witness:
  "reviewable readyStatus \<and> \<not> accepted readyStatus
   \<and> answeredOk (exampleWorld [answer True 200 None None [], answer True 200 None None [9]])
        0 (reviewRequest exampleConfig [] ''42'' ''accept'')
   \<and> issued (acceptAndDownload exampleConfig [] ''42'' readyStatus)
        (exampleWorld [answer True 200 None None [], answer True 200 None None [9]]) =
       [reviewRequest exampleConfig [] ''42'' ''accept'',
        downloadRequest_v3 exampleConfig [] ''42'']
   \<and> issued (download_v2 exampleConfig ''42'' readyStatus [])
        (exampleWorld [answer True 200 None None [], answer True 200 None None [9]]) =
       [acceptRequest exampleConfig [] ''42'', downloadRequest_v2 exampleConfig [] ''42'']
   \<and> \<not> reviewable failedStatus
   \<and> issued (acceptAndDownload exampleConfig [] ''42'' failedStatus)
        (exampleWorld [answer True 200 None None [9]]) =
       [downloadRequest_v3 exampleConfig [] ''42'']
   \<and> \<not> answeredOk (exampleWorld [answer False 409 None None []])
        0 (reviewRequest exampleConfig [] ''42'' ''accept'')
   \<and> isl (fst (acceptAndDownload exampleConfig [] ''42'' readyStatus
        (exampleWorld [answer False 409 None None []])))
   \<and> issued (acceptAndDownload exampleConfig [] ''42'' readyStatus)
        (exampleWorld [answer False 409 None None []]) =
       [reviewRequest exampleConfig [] ''42'' ''accept'']
   \<and> isl (fst (download_v2 exampleConfig ''42'' readyStatus []
        (exampleWorld [answer False 409 None None []])))
   \<and> issued (download_v2 exampleConfig ''42'' readyStatus [])
        (exampleWorld [answer False 409 None None []]) =
       [acceptRequest exampleConfig [] ''42'']"
proof -
  let ?w = "exampleWorld [answer True 200 None None [], answer True 200 None None [9]]"
  let ?v = "exampleWorld [answer True 200 None None [9]]"
  let ?u = "exampleWorld [answer False 409 None None []]"
  have f: "reviewable readyStatus" "\<not> accepted readyStatus" "\<not> reviewable failedStatus"
    by (simp_all add: readyStatus_def failedStatus_def)
  have c: "length (calls ?w) = 0" "length (calls ?u) = 0"
    by (simp_all add: exampleWorld_def)
  have a: "answeredOk ?w 0 req" "\<not> answeredOk ?u 0 req" for req
    by (simp_all add: answeredOk_def exampleWorld_def answer_def)
  from accept_policy_and_download [of exampleConfig "[]" "''42''" readyStatus ?w]
    accept_policy_and_download [of exampleConfig "[]" "''42''" failedStatus ?v]
    accept_policy_and_download [of exampleConfig "[]" "''42''" readyStatus ?u] f c a
  show ?thesis
    by simp
qed


text \<open>
  What a download writes: when the server answers the download request with success
  and the output path can be written, there is exactly one write, of the body of that
  answer, to the output path.
\<close>

lemma download_v3_writes:
  assumes "server w (length (calls w)) (downloadRequest_v3 cfg hs oid) = Some r" and "ok r"
    and "writable w (outputPath cfg oid)"
  shows "fst (download_v3 cfg hs oid w) = Inr ()"
    and "written (snd (download_v3 cfg hs oid w)) =
           written w @ [(outputPath cfg oid, bodyBuffer r)]"
    and "files (snd (download_v3 cfg hs oid w)) =
           (files w)(outputPath cfg oid \<mapsto> bodyBuffer r)"
  using assms by (simp_all add: download_v3_def io_defs Let_def)

lemma download_v2_writes:
  assumes "accepted st"
    and "server w (length (calls w)) (downloadRequest_v2 cfg hs oid) = Some r" and "ok r"
    and "writable w (outputPath cfg oid)"
  shows "fst (download_v2 cfg oid st hs w) = Inr ()"
    and "written (snd (download_v2 cfg oid st hs w)) =
           written w @ [(outputPath cfg oid, bodyBuffer r)]"
    and "files (snd (download_v2 cfg oid st hs w)) =
           (files w)(outputPath cfg oid \<mapsto> bodyBuffer r)"
  using assms by (simp_all add: download_v2_def io_defs Let_def)

lemma download_v2_accept_writes:
  assumes "\<not> accepted st"
    and "answeredOk w (length (calls w)) (acceptRequest cfg hs oid)"
    and "server w (Suc (length (calls w))) (downloadRequest_v2 cfg hs oid) = Some r" and "ok r"
    and "writable w (outputPath cfg oid)"
  shows "fst (download_v2 cfg oid st hs w) = Inr ()"
    and "written (snd (download_v2 cfg oid st hs w)) =
           written w @ [(outputPath cfg oid, bodyBuffer r)]"
    and "files (snd (download_v2 cfg oid st hs w)) =
           (files w)(outputPath cfg oid \<mapsto> bodyBuffer r)"
  using assms
  by (auto simp: download_v2_def io_defs Let_def answeredOk_def split: option.splits)

text \<open>
  Claim C9: for every successful download of order \<open>X\<close> with output directory \<open>D\<close>,
  the script writes exactly one output file at path \<open>D/X.zip\<close> whose bytes are
  verbatim the server's response body. The scripts do write once, and the body as it
  is; but they join directory and file name with a backslash,
  \<^verbatim>\<open>`${outputDirectory}\\${orderId}.zip`\<close>. With the output directory
  \<^verbatim>\<open>/tmp/out\<close> and the order 42 the path handed to \<^verbatim>\<open>fs.writeFile\<close> has the
  backslash in its last component: on a POSIX system the file lies in \<^verbatim>\<open>/tmp\<close>, not
  in the output directory, and nothing is at \<^verbatim>\<open>/tmp/out/42.zip\<close>, while the script
  reports a download to \<^verbatim>\<open>/tmp/out\<close>.
\<close>

theorem download_path_has_backslash:
  "fst (download_v3 exampleConfig [] ''42'' (exampleWorld [answer True 200 None None [9, 8]]))
     = Inr ()
   \<and> written (snd (download_v3 exampleConfig [] ''42''
        (exampleWorld [answer True 200 None None [9, 8]])))
     = [(''/tmp/out'' @ [CHR 0x5C] @ ''42.zip'', [9, 8])]
   \<and> files (snd (download_v3 exampleConfig [] ''42''
        (exampleWorld [answer True 200 None None [9, 8]]))) ''/tmp/out/42.zip'' = None
   \<and> console (snd (download_v3 exampleConfig [] ''42''
        (exampleWorld [answer True 200 None None [9, 8]])))
     = [''Order 42 successfully downloaded to /tmp/out.'']
   \<and> fst (download_v2 exampleConfig ''42'' (readyStatus\<lparr>accepted := True\<rparr>) []
        (exampleWorld [answer True 200 None None [9, 8]]))
     = Inr ()
   \<and> written (snd (download_v2 exampleConfig ''42'' (readyStatus\<lparr>accepted := True\<rparr>) []
        (exampleWorld [answer True 200 None None [9, 8]])))
     = [(''/tmp/out'' @ [CHR 0x5C] @ ''42.zip'', [9, 8])]
   \<and> files (snd (download_v2 exampleConfig ''42'' (readyStatus\<lparr>accepted := True\<rparr>) []
        (exampleWorld [answer True 200 None None [9, 8]]))) ''/tmp/out/42.zip'' = None
   \<and> console (snd (download_v2 exampleConfig ''42'' (readyStatus\<lparr>accepted := True\<rparr>) []
        (exampleWorld [answer True 200 None None [9, 8]])))
     = [''Order 42 successfully downloaded to /tmp/out.'']
   \<and> outputDirectory exampleConfig = ''/tmp/out''
   \<and> posixDirname (outputPath exampleConfig ''42'') = ''/tmp''"
  by (simp add: download_v3_def download_v2_def io_defs outputPath_def exampleWorld_def
      exampleConfig_def answer_def backslash_def readyStatus_def posixDirname_def)

section \<open>The v2 submission\<close>

lemma upload_error_message:
  assumes "server w (length (calls w)) (qualificationRequest cfg hs) = Some q"
    and "json q = Some (Qualification m)" and "errorMessage m \<noteq> ''''"
  shows "upload cfg hs w =
           (Inl (Error (errorMessage m)),
            w\<lparr>calls := calls w @ [qualificationRequest cfg hs],
              trace := trace w @ [Fetched (qualificationRequest cfg hs)]\<rparr>)"
  using assms by (simp add: upload_def io_defs)

lemma getUploadContent_v2_result:
  "files w' = files w \<Longrightarrow> generateAsync w' = generateAsync w \<Longrightarrow>
   formBoundary w' = formBoundary w \<Longrightarrow>
   fst (getUploadContent_v2 cfg oid file w') = fst (getUploadContent_v2 cfg oid file w)"
  by (simp add: getUploadContent_v2_def io_defs Let_def split: option.splits)

lemma getUploadContent_v2_world: "snd (getUploadContent_v2 cfg oid file w) = w"
  by (simp add: getUploadContent_v2_def io_defs Let_def split: option.splits)

lemma upload_not_ok:
  assumes q: "server w (length (calls w)) (qualificationRequest cfg hs) = Some q"
    "json q = Some (Qualification m)" "errorMessage m = ''''"
    and fd: "fst (getUploadContent_v2 cfg (qOrderId m) (qOrderFile m) w) = Inr fd"
    and u: "server w (Suc (length (calls w))) (uploadRequest cfg hs (qOrderId m) fd) = Some u"
    "\<not> ok u"
  shows "fst (upload cfg hs w) = Inl (Error (''Upload failed for order '' @ qOrderId m @ ''!''))"
proof -
  let ?w1 = "w\<lparr>calls := calls w @ [qualificationRequest cfg hs],
               trace := trace w @ [Fetched (qualificationRequest cfg hs)],
               console := console w @
                 [''New order created with order ID '' @ qOrderId m @ ''.'']\<rparr>"
  have "fst (getUploadContent_v2 cfg (qOrderId m) (qOrderFile m) ?w1) =
        fst (getUploadContent_v2 cfg (qOrderId m) (qOrderFile m) w)"
    by (rule getUploadContent_v2_result) simp_all
  with fd have "fst (getUploadContent_v2 cfg (qOrderId m) (qOrderFile m) ?w1) = Inr fd"
    by simp
  then have g: "getUploadContent_v2 cfg (qOrderId m) (qOrderFile m) ?w1 = (Inr fd, ?w1)"
    using getUploadContent_v2_world [of cfg "qOrderId m" "qOrderFile m" ?w1]
    by (metis prod.collapse)
  show ?thesis
    using q u g by (simp add: upload_def bind_def ret_def throw_def fetch_def
        responseJson_def consoleLog_def Let_def)
qed

lemma upload_success:
  assumes "fst (upload cfg hs w) = Inr oid"
  shows "\<exists>q m fd u. server w (length (calls w)) (qualificationRequest cfg hs) = Some q
            \<and> json q = Some (Qualification m) \<and> errorMessage m = '''' \<and> qOrderId m = oid
            \<and> server w (Suc (length (calls w))) (uploadRequest cfg hs oid fd) = Some u
            \<and> ok u"
  using assms
  by (auto simp: upload_def io_defs getUploadContent_v2_def Let_def
      split: option.splits payload.splits if_splits)

text \<open>
  Claim C2, as stated: the v2 submission fails whenever the qualification response
  has a non-empty error message, and whenever one of its HTTP calls (qualification or
  upload) returns a non-success status. The status of the qualification response is
  never looked at: here the server answers the qualification with status 500 and a
  body whose error message is empty, and the submission goes through and returns the
  order id.
\<close>

theorem upload_ignores_qualification_status:
  "\<not> ok (answer False 500 None (Some (Qualification (exampleQualification ''''))) [])
   \<and> fst (upload exampleConfig []
        (exampleWorld [answer False 500 None (Some (Qualification (exampleQualification ''''))) [],
                       answer True 200 None None []])) = Inr ''42''"
  by (simp add: upload_def io_defs getUploadContent_v2_def Let_def exampleWorld_def
      exampleConfig_def answer_def exampleQualification_def)

text \<open>
  Claim C2, amended: the v2 submission fails fatally whenever the body of the
  qualification response carries a non-empty error message (that message is the
  error, and no upload is attempted), and whenever the upload call returns a
  non-success HTTP status; it returns an order id only if the error message is empty
  and the upload call was answered with success.
\<close>

theorem upload_fails_fatally:
  "(server w (length (calls w)) (qualificationRequest cfg hs) = Some q
      \<and> json q = Some (Qualification m) \<and> errorMessage m \<noteq> '''' \<longrightarrow>
      fst (upload cfg hs w) = Inl (Error (errorMessage m))
      \<and> issued (upload cfg hs) w = [qualificationRequest cfg hs])
   \<and> (server w (length (calls w)) (qualificationRequest cfg hs) = Some q
      \<and> json q = Some (Qualification m) \<and> errorMessage m = ''''
      \<and> fst (getUploadContent_v2 cfg (qOrderId m) (qOrderFile m) w) = Inr fd
      \<and> server w (Suc (length (calls w))) (uploadRequest cfg hs (qOrderId m) fd) = Some u
      \<and> \<not> ok u \<longrightarrow>
      fst (upload cfg hs w) =
        Inl (Error (''Upload failed for order '' @ qOrderId m @ ''!'')))
   \<and> (fst (upload cfg hs w) = Inr oid \<longrightarrow>
      (\<exists>q m fd u. server w (length (calls w)) (qualificationRequest cfg hs) = Some q
          \<and> json q = Some (Qualification m) \<and> errorMessage m = '''' \<and> qOrderId m = oid
          \<and> server w (Suc (length (calls w))) (uploadRequest cfg hs oid fd) = Some u
          \<and> ok u))"
proof (intro conjI impI)
  assume a: "server w (length (calls w)) (qualificationRequest cfg hs) = Some q
      \<and> json q = Some (Qualification m) \<and> errorMessage m \<noteq> ''''"
  then have "upload cfg hs w =
      (Inl (Error (errorMessage m)),
       w\<lparr>calls := calls w @ [qualificationRequest cfg hs],
         trace := trace w @ [Fetched (qualificationRequest cfg hs)]\<rparr>)"
    by (simp add: upload_error_message)
  then show "fst (upload cfg hs w) = Inl (Error (errorMessage m))"
    and "issued (upload cfg hs) w = [qualificationRequest cfg hs]"
    by (simp_all add: issued_def)
next
  assume "server w (length (calls w)) (qualificationRequest cfg hs) = Some q
      \<and> json q = Some (Qualification m) \<and> errorMessage m = ''''
      \<and> fst (getUploadContent_v2 cfg (qOrderId m) (qOrderFile m) w) = Inr fd
      \<and> server w (Suc (length (calls w))) (uploadRequest cfg hs (qOrderId m) fd) = Some u
      \<and> \<not> ok u"
  then show "fst (upload cfg hs w) =
      Inl (Error (''Upload failed for order '' @ qOrderId m @ ''!''))"
    using upload_not_ok [of w cfg hs q m fd u] by blast
next
  assume "fst (upload cfg hs w) = Inr oid"
  then show "\<exists>q m fd u. server w (length (calls w)) (qualificationRequest cfg hs) = Some q
          \<and> json q = Some (Qualification m) \<and> errorMessage m = '''' \<and> qOrderId m = oid
          \<and> server w (Suc (length (calls w))) (uploadRequest cfg hs oid fd) = Some u
          \<and> ok u"
    by (rule upload_success)
qed


theorem upload_fails_fatally_witness:
  "fst (upload exampleConfig []
        (exampleWorld [answer True 200 None
                         (Some (Qualification (exampleQualification ''No crown''))) []]))
     = Inl (Error ''No crown'')
   \<and> issued (upload exampleConfig [])
        (exampleWorld [answer True 200 None
                         (Some (Qualification (exampleQualification ''No crown''))) []])
     = [qualificationRequest exampleConfig []]
   \<and> fst (upload exampleConfig []
        (exampleWorld [answer True 200 None (Some (Qualification (exampleQualification ''''))) [],
                       answer False 500 None None []]))
     = Inl (Error ''Upload failed for order 42!'')
   \<and> fst (upload exampleConfig []
        (exampleWorld [answer True 200 None (Some (Qualification (exampleQualification ''''))) [],
                       answer True 200 None None []]))
     = Inr ''42''"
proof -
  let ?bad = "answer True 200 None (Some (Qualification (exampleQualification ''No crown''))) []"
  let ?good = "answer True 200 None (Some (Qualification (exampleQualification ''''))) []"
  let ?no = "answer False 500 None None []"
  let ?a = "exampleWorld [?bad]"
  let ?b = "exampleWorld [?good, ?no]"
  let ?c = "exampleWorld [?good, answer True 200 None None []]"
  let ?fd = "\<lparr>boundary = ''boundary'', filename = ''42.zip'',
              contentType = ''application/zip'',
              fileData = storedZip [(''upper.stl'', [1, 2]), (''lower.stl'', [3]),
                                    (''order.xml'', [7])]\<rparr>"
  have a: "server ?a (length (calls ?a)) req = Some ?bad"
    "json ?bad = Some (Qualification (exampleQualification ''No crown''))"
    "errorMessage (exampleQualification ''No crown'') = ''No crown''" for req
    by (simp_all add: exampleWorld_def answer_def exampleQualification_def)
  have b: "server ?b (length (calls ?b)) req = Some ?good"
    "json ?good = Some (Qualification (exampleQualification ''''))"
    "errorMessage (exampleQualification '''') = ''''"
    "qOrderId (exampleQualification '''') = ''42''"
    "server ?b (Suc (length (calls ?b))) req = Some ?no" "\<not> ok ?no" for req
    by (simp_all add: exampleWorld_def answer_def exampleQualification_def)
  have fd: "fst (getUploadContent_v2 exampleConfig (qOrderId (exampleQualification ''''))
                  (qOrderFile (exampleQualification '''')) ?b) = Inr ?fd"
    by (simp add: getUploadContent_v2_def io_defs Let_def exampleWorld_def exampleConfig_def
        exampleQualification_def upperJawScanName_def lowerJawScanName_def scanName_def
        split_def regexp_def backslash_def)
  have c: "fst (upload exampleConfig [] ?c) = Inr ''42''"
    by (simp add: upload_def io_defs getUploadContent_v2_def Let_def exampleWorld_def
        exampleConfig_def answer_def exampleQualification_def)
  from upload_fails_fatally [where w = ?a and cfg = exampleConfig and hs = "[]"
      and q = ?bad and m = "exampleQualification ''No crown''"] a
  have 1: "fst (upload exampleConfig [] ?a) = Inl (Error ''No crown'')"
    "issued (upload exampleConfig []) ?a = [qualificationRequest exampleConfig []]"
    by simp_all
  from upload_fails_fatally [where w = ?b and cfg = exampleConfig and hs = "[]"
      and q = ?good and m = "exampleQualification ''''" and fd = ?fd and u = ?no] b fd
  have 2: "fst (upload exampleConfig [] ?b) = Inl (Error ''Upload failed for order 42!'')"
    by simp
  from 1 2 c show ?thesis
    by simp
qed


section \<open>The upload archive\<close>

text \<open>The stored format can be read back.\<close>

lemma charOfByte_byteOfChar: "charOfByte (byteOfChar c) = c"
  by (simp add: charOfByte_def byteOfChar_def unat_of_nat)

lemma map_charOfByte_byteOfChar: "map (charOfByte \<circ> byteOfChar) name = name"
  by (induction name) (simp_all add: charOfByte_byteOfChar)

lemma storedUnzipAcc_field:
  "storedUnzipAcc entries cur name (storedField bs @ r) =
     (case name of
        None \<Rightarrow> storedUnzipAcc entries [] (Some (rev cur @ bs)) r
      | Some n \<Rightarrow> storedUnzipAcc ((map charOfByte n, rev cur @ bs) # entries) [] None r)"
  by (induction bs arbitrary: cur) (simp_all split: option.splits)

lemma storedUnzipAcc_zip:
  "storedUnzipAcc entries [] None (storedZip z @ r) =
   storedUnzipAcc (rev z @ entries) [] None r"
  by (induction z arbitrary: entries)
    (auto simp: storedUnzipAcc_field map_charOfByte_byteOfChar)

lemma storedUnzip_storedZip: "storedUnzip (storedZip z) = Some z"
  using storedUnzipAcc_zip [of "[]" z "[]"] by (simp add: storedUnzip_def)

text \<open>A scan name is a file name: it contains none of the separators.\<close>

lemma splitAcc_no_separator:
  "\<forall>c \<in> set acc. \<not> isSep c \<Longrightarrow> seg \<in> set (splitAcc isSep acc s) \<Longrightarrow>
   \<forall>c \<in> set seg. \<not> isSep c"
proof (induction s arbitrary: acc)
  case Nil
  then show ?case by simp
next
  case (Cons a s)
  show ?case
  proof (cases "isSep a")
    case True
    with Cons.prems have "seg = rev acc \<or> seg \<in> set (splitAcc isSep [] s)"
      by simp
    then show ?thesis
    proof
      assume "seg = rev acc"
      with Cons.prems(1) show ?thesis by simp
    next
      assume "seg \<in> set (splitAcc isSep [] s)"
      with Cons.IH [of "[]"] show ?thesis by simp
    qed
  next
    case False
    with Cons.prems have "seg \<in> set (splitAcc isSep (a # acc) s)"
      and "\<forall>c \<in> set (a # acc). \<not> isSep c"
      by simp_all
    with Cons.IH [of "a # acc"] show ?thesis by blast
  qed
qed

lemma splitAcc_not_Nil: "splitAcc isSep acc s \<noteq> []"
  by (induction s arbitrary: acc) simp_all

lemma scanName_no_separator: "c \<in> set (scanName path) \<Longrightarrow> \<not> regexp c"
  using splitAcc_no_separator [of "[]" regexp "last (splitAcc regexp [] path)" path]
    splitAcc_not_Nil [of regexp "[]" path]
  by (auto simp: scanName_def split_def)

text \<open>What the scripts put into the archive.\<close>

lemma getScanZipAsBuffer_entries:
  assumes "files w (upperJawPath cfg) = Some u" "files w (lowerJawPath cfg) = Some l"
    "upperJawScanName cfg \<noteq> lowerJawScanName cfg"
  shows "getScanZipAsBuffer cfg w =
           (Inr (generateAsync w [(upperJawScanName cfg, u), (lowerJawScanName cfg, l)]), w)"
  using assms by (simp add: getScanZipAsBuffer_def io_defs)

lemma getUploadContent_v3_entries:
  assumes "files w (upperJawPath cfg) = Some u" "files w (lowerJawPath cfg) = Some l"
    "upperJawScanName cfg \<noteq> lowerJawScanName cfg"
  shows "map_sum id fileData (fst (getUploadContent_v3 cfg oid w)) =
           Inr (generateAsync w [(upperJawScanName cfg, u), (lowerJawScanName cfg, l)])"
  using assms by (simp add: getUploadContent_v3_def bind_def getScanZipAsBuffer_entries)

lemma getUploadContent_v2_entries:
  assumes "files w (upperJawPath cfg) = Some u" "files w (lowerJawPath cfg) = Some l"
    "upperJawScanName cfg \<noteq> lowerJawScanName cfg"
    "fst orderFile \<noteq> upperJawScanName cfg" "fst orderFile \<noteq> lowerJawScanName cfg"
  shows "map_sum id fileData (fst (getUploadContent_v2 cfg oid orderFile w)) =
           Inr (generateAsync w
                  [(upperJawScanName cfg, u), (lowerJawScanName cfg, l), orderFile])"
  using assms by (simp add: getUploadContent_v2_def io_defs Let_def)

text \<open>
  Claim C8, as stated: for all scan contents (and every order file of the server) the
  archive holds exactly the two scan names (and the order file's name), each with its
  input content. An archive has one entry per name: for two scans with the same file
  name in different folders the second \<^verbatim>\<open>zip.file\<close> replaces the first, and reading
  the archive back gives one entry with the content of the lower jaw. The content of
  the upper jaw (the bytes 1, 2) is not in the upload.
\<close>

theorem archive_loses_scan_on_equal_names:
  "files (exampleWorld []) (upperJawPath clashConfig) = Some [1, 2]
   \<and> files (exampleWorld []) (lowerJawPath clashConfig) = Some [3]
   \<and> upperJawScanName clashConfig = ''scan.stl''
   \<and> lowerJawScanName clashConfig = ''scan.stl''
   \<and> map_sum id storedUnzip (fst (getScanZipAsBuffer clashConfig (exampleWorld []))) =
       Inr (Some [(''scan.stl'', [3])])"
proof -
  have n: "upperJawScanName clashConfig = ''scan.stl''"
    "lowerJawScanName clashConfig = ''scan.stl''"
    by (simp_all add: clashConfig_def upperJawScanName_def lowerJawScanName_def
        scanName_def split_def regexp_def backslash_def)
  have f: "files (exampleWorld []) (upperJawPath clashConfig) = Some [1, 2]"
    "files (exampleWorld []) (lowerJawPath clashConfig) = Some [3]"
    by (simp_all add: exampleWorld_def clashConfig_def)
  have g: "generateAsync (exampleWorld []) = storedZip"
    by (simp add: exampleWorld_def)
  have "fst (getScanZipAsBuffer clashConfig (exampleWorld [])) =
        Inr (storedZip [(''scan.stl'', [3])])"
    using f by (simp add: getScanZipAsBuffer_def io_defs n g del: storedZip.simps)
  then have "map_sum id storedUnzip (fst (getScanZipAsBuffer clashConfig (exampleWorld []))) =
        Inr (Some [(''scan.stl'', [3])])"
    by (simp add: storedUnzip_storedZip del: storedZip.simps)
  with n f show ?thesis
    by simp
qed

text \<open>
  Claim C8, amended: when the two scan files can be read and their names differ, the
  archive built for upload in v3 contains exactly the two entries named by the scan
  file names, and in v2, when the order file's name differs from both and has no
  folder part, exactly these two and the order file: the buffer is what the zip
  library generates for that list of entries, each name with its input content.
  Decompressing it with a decoder \<open>loadAsync\<close> that reads this archive back yields
  byte for byte the input contents under those names.
\<close>

theorem upload_archive_round_trip:
  assumes "files w (upperJawPath cfg) = Some upperContent"
    and "files w (lowerJawPath cfg) = Some lowerContent"
    and "upperJawScanName cfg \<noteq> lowerJawScanName cfg"
  shows
    "fst (getScanZipAsBuffer cfg w) =
       Inr (generateAsync w
              [(upperJawScanName cfg, upperContent), (lowerJawScanName cfg, lowerContent)])
   \<and> map_sum id fileData (fst (getUploadContent_v3 cfg orderId w)) =
       Inr (generateAsync w
              [(upperJawScanName cfg, upperContent), (lowerJawScanName cfg, lowerContent)])
   \<and> (loadAsync (generateAsync w
          [(upperJawScanName cfg, upperContent), (lowerJawScanName cfg, lowerContent)]) =
        Some [(upperJawScanName cfg, upperContent), (lowerJawScanName cfg, lowerContent)] \<longrightarrow>
      map_sum id loadAsync (fst (getScanZipAsBuffer cfg w)) =
        Inr (Some [(upperJawScanName cfg, upperContent), (lowerJawScanName cfg, lowerContent)])
      \<and> map_sum id (loadAsync \<circ> fileData) (fst (getUploadContent_v3 cfg orderId w)) =
        Inr (Some [(upperJawScanName cfg, upperContent), (lowerJawScanName cfg, lowerContent)]))
   \<and> (fst orderFile \<noteq> upperJawScanName cfg \<and> fst orderFile \<noteq> lowerJawScanName cfg
        \<and> CHR ''/'' \<notin> set (fst orderFile) \<longrightarrow>
      map_sum id fileData (fst (getUploadContent_v2 cfg orderId orderFile w)) =
        Inr (generateAsync w
               [(upperJawScanName cfg, upperContent), (lowerJawScanName cfg, lowerContent),
                orderFile]))
   \<and> (fst orderFile \<noteq> upperJawScanName cfg \<and> fst orderFile \<noteq> lowerJawScanName cfg
        \<and> CHR ''/'' \<notin> set (fst orderFile)
        \<and> loadAsync (generateAsync w
             [(upperJawScanName cfg, upperContent), (lowerJawScanName cfg, lowerContent),
              orderFile]) =
           Some [(upperJawScanName cfg, upperContent), (lowerJawScanName cfg, lowerContent),
                 orderFile] \<longrightarrow>
      map_sum id (loadAsync \<circ> fileData) (fst (getUploadContent_v2 cfg orderId orderFile w)) =
        Inr (Some [(upperJawScanName cfg, upperContent), (lowerJawScanName cfg, lowerContent),
                   orderFile]))"
proof -
  let ?two = "[(upperJawScanName cfg, upperContent), (lowerJawScanName cfg, lowerContent)]"
  let ?three = "[(upperJawScanName cfg, upperContent), (lowerJawScanName cfg, lowerContent),
                 orderFile]"
  have comp: "map_sum id (loadAsync \<circ> fileData) x = map_sum id loadAsync (map_sum id fileData x)"
    for x :: "error + formData"
    by (simp add: sum.map_comp)
  have b: "fst (getScanZipAsBuffer cfg w) = Inr (generateAsync w ?two)"
    using assms by (simp add: getScanZipAsBuffer_entries)
  have v3: "map_sum id fileData (fst (getUploadContent_v3 cfg orderId w)) =
        Inr (generateAsync w ?two)"
    using assms by (rule getUploadContent_v3_entries)
  have v2: "map_sum id fileData (fst (getUploadContent_v2 cfg orderId orderFile w)) =
        Inr (generateAsync w ?three)"
    if "fst orderFile \<noteq> upperJawScanName cfg" "fst orderFile \<noteq> lowerJawScanName cfg"
    using assms that by (rule getUploadContent_v2_entries)
  show ?thesis
    unfolding comp using b v3 v2 by simp
qed

theorem upload_archive_round_trip_witness:
  "files (exampleWorld []) (upperJawPath exampleConfig) = Some [1, 2]
   \<and> files (exampleWorld []) (lowerJawPath exampleConfig) = Some [3]
   \<and> upperJawScanName exampleConfig \<noteq> lowerJawScanName exampleConfig
   \<and> storedUnzip (generateAsync (exampleWorld [])
        [(''upper.stl'', [1, 2]), (''lower.stl'', [3])]) =
       Some [(''upper.stl'', [1, 2]), (''lower.stl'', [3])]
   \<and> storedUnzip (generateAsync (exampleWorld [])
        [(''upper.stl'', [1, 2]), (''lower.stl'', [3]), (''order.xml'', [7])]) =
       Some [(''upper.stl'', [1, 2]), (''lower.stl'', [3]), (''order.xml'', [7])]
   \<and> map_sum id storedUnzip (fst (getScanZipAsBuffer exampleConfig (exampleWorld []))) =
       Inr (Some [(''upper.stl'', [1, 2]), (''lower.stl'', [3])])
   \<and> map_sum id (storedUnzip \<circ> fileData)
        (fst (getUploadContent_v3 exampleConfig ''42'' (exampleWorld []))) =
       Inr (Some [(''upper.stl'', [1, 2]), (''lower.stl'', [3])])
   \<and> map_sum id (storedUnzip \<circ> fileData)
        (fst (getUploadContent_v2 exampleConfig ''42'' (''order.xml'', [7]) (exampleWorld []))) =
       Inr (Some [(''upper.stl'', [1, 2]), (''lower.stl'', [3]), (''order.xml'', [7])])"
proof -
  let ?w = "exampleWorld []"
  have codec: "storedUnzip (generateAsync ?w a) = Some a" for a
    by (simp add: exampleWorld_def storedUnzip_storedZip)
  have f: "files ?w (upperJawPath exampleConfig) = Some [1, 2]"
    "files ?w (lowerJawPath exampleConfig) = Some [3]"
    by (simp_all add: exampleWorld_def exampleConfig_def)
  have n: "upperJawScanName exampleConfig = ''upper.stl''"
    "lowerJawScanName exampleConfig = ''lower.stl''"
    by (simp_all add: exampleConfig_def upperJawScanName_def lowerJawScanName_def
        scanName_def split_def regexp_def backslash_def)
  have d: "upperJawScanName exampleConfig \<noteq> lowerJawScanName exampleConfig"
    by (simp add: n)
  from upload_archive_round_trip [of ?w exampleConfig "[1, 2]" "[3]" "''42''" storedUnzip
      "(''order.xml'', [7])", OF f d] f d
  show ?thesis
    by (simp add: n codec)
qed


end
